theory Spec2Isabelle
  imports Main "HOL-Library.List_Lexorder" "HOL-Library.Char_ord"
begin

section \<open>The stored data (database.py)\<close>

text \<open>
  The application keeps its state in SQLite tables and every route handler is a short
  sequence of SQL statements on one connection. A table is modelled as the list of its
  rows in rowid order, a row as a record of the columns the handlers read or write.

  The forms post dates and times as texts. Python compares them with \<^verbatim>\<open><\<close> on \<^verbatim>\<open>str\<close>, and
  such texts are strings under the lexicographic order. SQLite does not keep every text as
  it was posted: the columns declared \<^verbatim>\<open>DATE\<close> and \<^verbatim>\<open>TIME\<close> have NUMERIC affinity, so a text that
  reads as a number is stored as that number, and \<^verbatim>\<open>column = ?\<close> compares the column with what
  would be stored for the bound text. A value of such a column is therefore a number or a
  text. Of the numbers the handlers use nothing but their equality and their reading by
  \<^verbatim>\<open>time(...)\<close>; they are the INTEGER and REAL values of SQLite, two of them being the same
  number when SQLite compares them equal.
\<close>

typedecl number

datatype sqlval = SqlNumber number | SqlText string

text \<open>
  The two behaviours of SQLite that the handlers rely on and that are no code of this
  repository are parameters of the model:

  \<^item> \<open>numeric_affinity\<close>, the value a column with NUMERIC affinity holds for a bound text.
    SQLite keeps \<^verbatim>\<open>'2025-06-10'\<close> and \<^verbatim>\<open>'09:30'\<close> as texts and turns \<^verbatim>\<open>'2027'\<close> into the number 2027
    and \<^verbatim>\<open>'0930'\<close>, \<^verbatim>\<open>'930'\<close> and \<^verbatim>\<open>' 930'\<close> into the number 930.

  \<^item> \<open>sql_time\<close>, the SQL function \<^verbatim>\<open>time(X)\<close>, whose result is a text \<^verbatim>\<open>'HH:MM:SS'\<close> or NULL
    (\<open>None\<close>). In SQLite \<^verbatim>\<open>time('09:30')\<close> and \<^verbatim>\<open>time('09:30:00')\<close> are \<^verbatim>\<open>'09:30:00'\<close>, \<^verbatim>\<open>time('10:5')\<close>
    and \<^verbatim>\<open>time('11:99')\<close> are NULL, and a number is read as a Julian day, so that \<^verbatim>\<open>time\<close> of
    the number 930 is \<^verbatim>\<open>'12:00:00'\<close>.

  Every handler takes them from its environment. The theorems below hold for every such
  pair of functions; the examples run on the one defined with the clinic.
\<close>

record sqlite =
  numeric_affinity :: "string \<Rightarrow> sqlval"
  sql_time :: "sqlval \<Rightarrow> string option"

text \<open>
  Integer keys are natural numbers. A posted \<^verbatim>\<open>doctor_id\<close> is read under the INTEGER affinity
  of its column, as the integer the text denotes. A nullable column is an option, \<open>None\<close>
  being NULL. The text columns and \<^verbatim>\<open>follow_up_date\<close>, which no handler modelled here reads
  back or compares, hold the posted text.
\<close>

type_synonym date = string
type_synonym time_of_day = string
type_synonym timestamp = nat

record user =
  user_id :: nat
  role :: string

record patient =
  patient_id :: nat
  patient_user_id :: nat
  patient_status :: string

record doctor =
  doctor_id :: nat
  doctor_user_id :: nat
  doctor_status :: string

record availability =
  availability_id :: nat
  av_doctor_id :: nat
  av_date :: sqlval
  start_time :: sqlval
  end_time :: sqlval
  is_available :: bool

record appointment =
  appointment_id :: nat
  ap_patient_id :: nat
  ap_doctor_id :: nat
  appointment_date :: sqlval
  appointment_time :: sqlval
  status :: "string option"
  reason :: "string option"
  ap_created_at :: timestamp
  ap_updated_at :: timestamp

record treatment =
  treatment_id :: nat
  tr_appointment_id :: nat
  diagnosis :: "string option"
  prescription :: "string option"
  tr_notes :: "string option"
  follow_up_date :: "string option"
  tr_created_at :: timestamp
  tr_updated_at :: timestamp

record database =
  patients :: "patient list"
  doctors :: "doctor list"
  doctor_availability :: "availability list"
  appointments :: "appointment list"
  treatments :: "treatment list"

datatype exn = IntegrityError | OperationalError | TypeError | IndexError | OverflowError

text \<open>\<^verbatim>\<open>INTEGER PRIMARY KEY AUTOINCREMENT\<close>: one more than the largest rowid so far (rows are
  never deleted by the application).\<close>

definition next_id :: "nat list \<Rightarrow> nat" where
  "next_id ids = Suc (foldr max ids 0)"

text \<open>\<^verbatim>\<open>CHECK(status IN ('Booked', 'Completed', 'Cancelled', 'Rescheduled'))\<close>. SQLite rejects
  a row only when the expression is false; for NULL it is NULL, and the row is accepted.\<close>

definition status_check :: "string option \<Rightarrow> bool" where
  "status_check s =
     (case s of None \<Rightarrow> True
      | Some v \<Rightarrow> v \<in> set [''Booked'', ''Completed'', ''Cancelled'', ''Rescheduled''])"

text \<open>\<^verbatim>\<open>status NOT IN ('Cancelled', 'Rescheduled')\<close> in a WHERE clause: NULL selects no row.\<close>

definition status_not_in :: "string option \<Rightarrow> bool" where
  "status_not_in s =
     (case s of None \<Rightarrow> False | Some v \<Rightarrow> v \<notin> set [''Cancelled'', ''Rescheduled''])"

text \<open>\<^verbatim>\<open>X BETWEEN Y AND Z\<close> on results of \<^verbatim>\<open>time(...)\<close>, which are texts or NULL: it selects the
  row when none of the three is NULL and \<^verbatim>\<open>Y <= X\<close> and \<^verbatim>\<open>X <= Z\<close> as texts.\<close>

fun sql_between :: "string option \<Rightarrow> string option \<Rightarrow> string option \<Rightarrow> bool" where
  "sql_between (Some x) (Some y) (Some z) = (y \<le> x \<and> x \<le> z)"
| "sql_between _ _ _ = False"

subsection \<open>The SQL statements of the handlers\<close>

text \<open>A SELECT followed by \<^verbatim>\<open>fetchone()\<close> is the first matching row, \<open>None\<close> when there
  is none.\<close>

definition select_patient :: "nat \<Rightarrow> database \<Rightarrow> patient option" where
  "select_patient uid db = List.find (\<lambda>p. patient_user_id p = uid) (patients db)"

definition select_doctor :: "nat \<Rightarrow> database \<Rightarrow> doctor option" where
  "select_doctor uid db = List.find (\<lambda>d. doctor_user_id d = uid) (doctors db)"

text \<open>\<^verbatim>\<open>WHERE doctor_id = ? AND appointment_date = ? AND appointment_time = ? AND status NOT IN
  ('Cancelled', 'Rescheduled')\<close>: the two columns are compared with the bound texts under
  NUMERIC affinity.\<close>

definition select_existing ::
  "sqlite \<Rightarrow> nat \<Rightarrow> date \<Rightarrow> time_of_day \<Rightarrow> database \<Rightarrow> appointment option" where
  "select_existing L did dt tm db =
     List.find (\<lambda>a. ap_doctor_id a = did \<and> appointment_date a = numeric_affinity L dt
                   \<and> appointment_time a = numeric_affinity L tm \<and> status_not_in (status a))
       (appointments db)"

text \<open>\<^verbatim>\<open>WHERE doctor_id = ? AND date = ? AND is_available = 1 AND time(?) BETWEEN
  time(start_time) AND time(end_time)\<close>: \<^verbatim>\<open>time\<close> is applied to the bound text and to the two
  stored values.\<close>

definition select_available ::
  "sqlite \<Rightarrow> nat \<Rightarrow> date \<Rightarrow> time_of_day \<Rightarrow> database \<Rightarrow> availability option" where
  "select_available L did dt tm db =
     List.find (\<lambda>w. av_doctor_id w = did \<and> av_date w = numeric_affinity L dt \<and> is_available w
                   \<and> sql_between (sql_time L (SqlText tm)) (sql_time L (start_time w))
                        (sql_time L (end_time w)))
       (doctor_availability db)"

definition insert_appointment ::
  "sqlite \<Rightarrow> nat \<Rightarrow> nat \<Rightarrow> date \<Rightarrow> time_of_day \<Rightarrow> string option \<Rightarrow> timestamp
     \<Rightarrow> database \<Rightarrow> exn + database" where
  "insert_appointment L pid did dt tm rsn now db =
     Inr (db\<lparr>appointments := appointments db @
        [\<lparr>appointment_id = next_id (map appointment_id (appointments db)),
          ap_patient_id = pid, ap_doctor_id = did,
          appointment_date = numeric_affinity L dt, appointment_time = numeric_affinity L tm,
          status = Some ''Booked'', reason = rsn,
          ap_created_at = now, ap_updated_at = now\<rparr>]\<rparr>)"

definition select_appointment_of :: "nat \<Rightarrow> nat \<Rightarrow> database \<Rightarrow> appointment option" where
  "select_appointment_of aid pid db =
     List.find (\<lambda>a. appointment_id a = aid \<and> ap_patient_id a = pid) (appointments db)"

text \<open>\<^verbatim>\<open>UPDATE appointments SET status = ?, updated_at = CURRENT_TIMESTAMP WHERE
  appointment_id = ?\<close>. The CHECK constraint is evaluated on the rows being written, so a
  status outside the four raises only when some row has the identifier.\<close>

definition update_status ::
  "nat \<Rightarrow> string option \<Rightarrow> timestamp \<Rightarrow> database \<Rightarrow> exn + database" where
  "update_status aid st now db =
     (if (\<exists>a \<in> set (appointments db). appointment_id a = aid) \<and> \<not> status_check st
      then Inl IntegrityError
      else Inr (db\<lparr>appointments :=
        map (\<lambda>a. if appointment_id a = aid then a\<lparr>status := st, ap_updated_at := now\<rparr> else a)
          (appointments db)\<rparr>))"

definition select_treatment :: "nat \<Rightarrow> database \<Rightarrow> treatment option" where
  "select_treatment aid db = List.find (\<lambda>t. tr_appointment_id t = aid) (treatments db)"

text \<open>The appointment row that the page of the doctor's update shows. Its joins with
  \<^verbatim>\<open>patients\<close> and \<^verbatim>\<open>users\<close> add columns for the page and drop a row that has no patient;
  the page is rendered whether or not a row comes back, so the joins are left out.\<close>

definition select_appointment :: "nat \<Rightarrow> database \<Rightarrow> appointment option" where
  "select_appointment aid db = List.find (\<lambda>a. appointment_id a = aid) (appointments db)"

record treatment_form =
  tf_status :: "string option"
  tf_diagnosis :: "string option"
  tf_prescription :: "string option"
  tf_notes :: "string option"
  tf_follow_up_date :: "string option"

definition update_treatment ::
  "nat \<Rightarrow> treatment_form \<Rightarrow> timestamp \<Rightarrow> database \<Rightarrow> exn + database" where
  "update_treatment aid f now db =
     Inr (db\<lparr>treatments :=
       map (\<lambda>t. if tr_appointment_id t = aid
                then t\<lparr>diagnosis := tf_diagnosis f, prescription := tf_prescription f,
                       tr_notes := tf_notes f, follow_up_date := tf_follow_up_date f,
                       tr_updated_at := now\<rparr>
                else t)
         (treatments db)\<rparr>)"

text \<open>\<^verbatim>\<open>INSERT INTO treatments\<close>, under \<^verbatim>\<open>appointment_id INTEGER UNIQUE NOT NULL\<close>. Foreign keys
  are not enforced (the connection never sets \<^verbatim>\<open>PRAGMA foreign_keys\<close>), so the appointment
  need not exist.\<close>

definition insert_treatment ::
  "nat \<Rightarrow> treatment_form \<Rightarrow> timestamp \<Rightarrow> database \<Rightarrow> exn + database" where
  "insert_treatment aid f now db =
     (if aid \<in> set (map tr_appointment_id (treatments db)) then Inl IntegrityError
      else Inr (db\<lparr>treatments := treatments db @
        [\<lparr>treatment_id = next_id (map treatment_id (treatments db)),
          tr_appointment_id = aid, diagnosis = tf_diagnosis f,
          prescription = tf_prescription f, tr_notes = tf_notes f,
          follow_up_date = tf_follow_up_date f,
          tr_created_at = now, tr_updated_at = now\<rparr>]\<rparr>))"

text \<open>\<^verbatim>\<open>WHERE doctor_id = ? AND date = ? AND start_time = ?\<close>, the two columns compared with the
  bound texts under NUMERIC affinity.\<close>

definition select_window ::
  "sqlite \<Rightarrow> nat \<Rightarrow> date \<Rightarrow> time_of_day \<Rightarrow> database \<Rightarrow> availability option" where
  "select_window L did dt st db =
     List.find (\<lambda>w. av_doctor_id w = did \<and> av_date w = numeric_affinity L dt
                   \<and> start_time w = numeric_affinity L st)
       (doctor_availability db)"

definition update_window ::
  "sqlite \<Rightarrow> nat \<Rightarrow> time_of_day \<Rightarrow> bool \<Rightarrow> database \<Rightarrow> exn + database" where
  "update_window L wid en av db =
     Inr (db\<lparr>doctor_availability :=
       map (\<lambda>w. if availability_id w = wid
                then w\<lparr>end_time := numeric_affinity L en, is_available := av\<rparr> else w)
         (doctor_availability db)\<rparr>)"

text \<open>\<^verbatim>\<open>INSERT INTO doctor_availability\<close>, under \<^verbatim>\<open>UNIQUE(doctor_id, date, start_time)\<close>, which
  is a constraint on the stored values.\<close>

definition window_key :: "availability \<Rightarrow> nat \<times> sqlval \<times> sqlval" where
  "window_key w = (av_doctor_id w, av_date w, start_time w)"

definition insert_window ::
  "sqlite \<Rightarrow> nat \<Rightarrow> date \<Rightarrow> time_of_day \<Rightarrow> time_of_day \<Rightarrow> bool \<Rightarrow> database
     \<Rightarrow> exn + database" where
  "insert_window L did dt st en av db =
     (if (did, numeric_affinity L dt, numeric_affinity L st)
           \<in> set (map window_key (doctor_availability db))
      then Inl IntegrityError
      else Inr (db\<lparr>doctor_availability := doctor_availability db @
        [\<lparr>availability_id = next_id (map availability_id (doctor_availability db)),
          av_doctor_id = did, av_date = numeric_affinity L dt,
          start_time = numeric_affinity L st, end_time = numeric_affinity L en,
          is_available = av\<rparr>]\<rparr>))"

section \<open>Connections, transactions and requests\<close>

text \<open>
  \<^verbatim>\<open>get_db()\<close> opens one connection per request and \<^verbatim>\<open>close_connection\<close> closes it when the
  request ends. Python's \<^verbatim>\<open>sqlite3\<close> opens a transaction before the first INSERT or UPDATE:
  the statements of a request act on a working copy, \<^verbatim>\<open>commit()\<close> makes the copy the stored
  state, \<^verbatim>\<open>rollback()\<close> drops it, and closing drops whatever was not committed.

  Every \<^verbatim>\<open>db.execute\<close> and \<^verbatim>\<open>db.commit\<close> may also fail in the storage layer (I/O error, locked
  file). The \<open>fault\<close> of a run says which call of the request raises, counted from 0;
  \<open>None\<close> is a run on a healthy store. A failing statement changes nothing.
\<close>

record conn =
  committed :: database
  working :: database
  calls :: nat

type_synonym fault = "nat option"
type_synonym 'a db_action = "conn \<Rightarrow> (exn + 'a) \<times> conn"

definition connect :: "database \<Rightarrow> conn" where
  "connect db = \<lparr>committed = db, working = db, calls = 0\<rparr>"

definition close :: "conn \<Rightarrow> database" where
  "close c = committed c"

definition rollback :: "conn \<Rightarrow> conn" where
  "rollback c = c\<lparr>working := committed c\<rparr>"

definition db_query :: "fault \<Rightarrow> (database \<Rightarrow> 'a) \<Rightarrow> 'a db_action" where
  "db_query flt q c =
     (if flt = Some (calls c) then (Inl OperationalError, c\<lparr>calls := Suc (calls c)\<rparr>)
      else (Inr (q (working c)), c\<lparr>calls := Suc (calls c)\<rparr>))"

definition db_execute :: "fault \<Rightarrow> (database \<Rightarrow> exn + database) \<Rightarrow> unit db_action" where
  "db_execute flt stmt c =
     (if flt = Some (calls c) then (Inl OperationalError, c\<lparr>calls := Suc (calls c)\<rparr>)
      else (case stmt (working c) of
              Inl x \<Rightarrow> (Inl x, c\<lparr>calls := Suc (calls c)\<rparr>)
            | Inr w \<Rightarrow> (Inr (), c\<lparr>working := w, calls := Suc (calls c)\<rparr>)))"

definition db_commit :: "fault \<Rightarrow> unit db_action" where
  "db_commit flt c =
     (if flt = Some (calls c) then (Inl OperationalError, c\<lparr>calls := Suc (calls c)\<rparr>)
      else (Inr (), c\<lparr>committed := working c, calls := Suc (calls c)\<rparr>))"

text \<open>A call that binds the \<^verbatim>\<open>appointment_id\<close> of the route, which \<^verbatim>\<open><int:appointment_id>\<close>
  reads from any decimal numeral: \<^verbatim>\<open>sqlite3\<close> refuses a Python \<^verbatim>\<open>int\<close> beyond 64 bits with
  OverflowError before the statement runs.\<close>

definition bind_int :: "nat \<Rightarrow> 'a db_action \<Rightarrow> 'a db_action" where
  "bind_int n call c =
     (if n < 2 ^ 63 then call c else (Inl OverflowError, c\<lparr>calls := Suc (calls c)\<rparr>))"

definition return_db :: "'a \<Rightarrow> 'a db_action" where
  "return_db x c = (Inr x, c)"

definition raise_db :: "exn \<Rightarrow> 'a db_action" where
  "raise_db x c = (Inl x, c)"

definition bind_db :: "'a db_action \<Rightarrow> ('a \<Rightarrow> 'b db_action) \<Rightarrow> 'b db_action" where
  "bind_db m f c = (case m c of (Inl x, c') \<Rightarrow> (Inl x, c') | (Inr a, c') \<Rightarrow> f a c')"

text \<open>What a request ends with: the success flash, one of the \<^verbatim>\<open>'danger'\<close> flashes before
  any write, the \<^verbatim>\<open>except\<close> branch of the handler (\<open>Failed\<close>), an exception nobody catches
  (\<open>Crashed\<close>, HTTP 500), or the redirect of the role decorators.\<close>

datatype rejection =
  FieldsRequired | PastBooking | SlotTaken | NotAvailable | AppointmentNotFound | PastCancel

datatype outcome = Success | Rejected rejection | Failed exn | Crashed exn | AccessDenied

text \<open>\<^verbatim>\<open>try: ... except Exception as e: db.rollback(); flash(f'Error: {e}', 'danger')\<close>\<close>

definition try_except :: "outcome db_action \<Rightarrow> outcome db_action" where
  "try_except body c =
     (case body c of (Inl x, c') \<Rightarrow> (Inr (Failed x), rollback c') | (Inr out, c') \<Rightarrow> (Inr out, c'))"

definition run_request :: "outcome db_action \<Rightarrow> database \<Rightarrow> outcome \<times> database" where
  "run_request h db =
     (case h (connect db) of
        (Inl x, c) \<Rightarrow> (Crashed x, close c)
      | (Inr out, c) \<Rightarrow> (out, close c))"

text \<open>The environment of a request: \<^verbatim>\<open>datetime.now().strftime('%Y-%m-%d')\<close>, SQLite's
  \<^verbatim>\<open>CURRENT_TIMESTAMP\<close>, flask-login's \<^verbatim>\<open>current_user\<close> (\<open>None\<close> when nobody is logged in), and
  the SQLite library the connection runs on.\<close>

record env =
  today :: date
  current_timestamp :: timestamp
  current_user :: "user option"
  sqlite3 :: sqlite

text \<open>\<^verbatim>\<open>@login_required\<close> with \<^verbatim>\<open>@patient_required\<close>, \<^verbatim>\<open>@doctor_required\<close> or \<^verbatim>\<open>@admin_required\<close>.\<close>

definition role_required ::
  "string \<Rightarrow> (user \<Rightarrow> database \<Rightarrow> outcome \<times> database) \<Rightarrow> env \<Rightarrow> database
     \<Rightarrow> outcome \<times> database" where
  "role_required r f e db =
     (case current_user e of
        None \<Rightarrow> (AccessDenied, db)
      | Some u \<Rightarrow> if role u \<noteq> r then (AccessDenied, db) else f u db)"

section \<open>Patient routes (blueprints/patient.py)\<close>

text \<open>The booking form. \<open>bf_doctor_id\<close> is the doctor the posted text denotes; the integers
  that SQLite holds as such are those below \<open>2 ^ 63\<close>, and the statements about bookings
  are made for these.\<close>

record booking_form =
  bf_doctor_id :: "nat option"
  bf_appointment_date :: "string option"
  bf_appointment_time :: "string option"
  bf_reason :: "string option"

text \<open>\<^verbatim>\<open>book_appointment\<close>, the POST branch. \<^verbatim>\<open>all([doctor_id, appointment_date,
  appointment_time])\<close> is false for a missing field and for an empty text; \<open>None\<close> in
  \<open>bf_doctor_id\<close> stands for both. The date test is Python's, on the posted text. The
  double-booking query and the availability query run outside the \<^verbatim>\<open>try\<close>.
  After its \<^verbatim>\<open>except\<close> branch the handler goes on to render the form, which reads and never
  writes; the model ends at the outcome.\<close>

definition book_appointment ::
  "fault \<Rightarrow> env \<Rightarrow> booking_form \<Rightarrow> database \<Rightarrow> outcome \<times> database" where
  "book_appointment flt e f =
     role_required ''patient'' (\<lambda>u. run_request (
       bind_db (db_query flt (select_patient (user_id u))) (\<lambda>patient.
       case patient of
         None \<Rightarrow> raise_db TypeError
       | Some p \<Rightarrow>
          (case (bf_doctor_id f, bf_appointment_date f, bf_appointment_time f) of
             (Some did, Some dt, Some tm) \<Rightarrow>
               if dt = [] \<or> tm = [] then return_db (Rejected FieldsRequired)
               else if dt < today e then return_db (Rejected PastBooking)
               else
                 bind_db (db_query flt (select_existing (sqlite3 e) did dt tm)) (\<lambda>existing.
                 if existing \<noteq> None then return_db (Rejected SlotTaken)
                 else
                   bind_db (db_query flt (select_available (sqlite3 e) did dt tm)) (\<lambda>available.
                   if available = None then return_db (Rejected NotAvailable)
                   else
                     try_except (
                       bind_db (db_execute flt (insert_appointment (sqlite3 e) (patient_id p)
                                  did dt tm (bf_reason f) (current_timestamp e))) (\<lambda>_.
                       bind_db (db_commit flt) (\<lambda>_.
                       return_db Success)))))
           | _ \<Rightarrow> return_db (Rejected FieldsRequired))))) e"

text \<open>\<^verbatim>\<open>cancel_appointment\<close>. The patient row is read before the \<^verbatim>\<open>try\<close>;
  \<^verbatim>\<open>patient['patient_id']\<close> is evaluated inside it. \<^verbatim>\<open>appointment['appointment_date']\<close> is the
  stored value: a \<^verbatim>\<open>str\<close> when SQLite kept the text, an \<^verbatim>\<open>int\<close> or a \<^verbatim>\<open>float\<close> otherwise, and
  Python's \<^verbatim>\<open><\<close> between a number and the \<^verbatim>\<open>str\<close> of today raises TypeError.\<close>

definition update_cancelled :: "nat \<Rightarrow> timestamp \<Rightarrow> database \<Rightarrow> exn + database" where
  "update_cancelled aid now db = update_status aid (Some ''Cancelled'') now db"

definition cancel_appointment ::
  "fault \<Rightarrow> env \<Rightarrow> nat \<Rightarrow> database \<Rightarrow> outcome \<times> database" where
  "cancel_appointment flt e aid =
     role_required ''patient'' (\<lambda>u. run_request (
       bind_db (db_query flt (select_patient (user_id u))) (\<lambda>patient.
       try_except (
         case patient of
           None \<Rightarrow> raise_db TypeError
         | Some p \<Rightarrow>
             bind_db (bind_int aid
                        (db_query flt (select_appointment_of aid (patient_id p)))) (\<lambda>appointment.
             case appointment of
               None \<Rightarrow> return_db (Rejected AppointmentNotFound)
             | Some a \<Rightarrow>
                 (case appointment_date a of
                    SqlNumber x \<Rightarrow> raise_db TypeError
                  | SqlText d \<Rightarrow>
                      if d < today e then return_db (Rejected PastCancel)
                      else
                        bind_db (bind_int aid
                                   (db_execute flt
                                      (update_cancelled aid (current_timestamp e)))) (\<lambda>_.
                        bind_db (db_commit flt) (\<lambda>_.
                        return_db Success)))))))) e"

section \<open>Doctor routes (blueprints/doctor.py)\<close>

text \<open>\<^verbatim>\<open>update_appointment\<close>, the POST branch: the status UPDATE, the lookup of the treatment
  row, its UPDATE or INSERT, and the commit, all inside one \<^verbatim>\<open>try\<close>. The handler never reads
  \<^verbatim>\<open>current_user\<close>. A missing \<^verbatim>\<open>status\<close> field is bound as NULL. After a success the handler
  returns; after the \<^verbatim>\<open>except\<close> branch it goes on to the two SELECTs of the page, which bind
  the identifier again.\<close>

definition doctor_update_appointment ::
  "fault \<Rightarrow> env \<Rightarrow> nat \<Rightarrow> treatment_form \<Rightarrow> database \<Rightarrow> outcome \<times> database" where
  "doctor_update_appointment flt e aid f =
     role_required ''doctor'' (\<lambda>u. run_request (
       bind_db (try_except (
         bind_db (bind_int aid
                    (db_execute flt
                       (update_status aid (tf_status f) (current_timestamp e)))) (\<lambda>_.
         bind_db (bind_int aid (db_query flt (select_treatment aid))) (\<lambda>existing_treatment.
         bind_db (bind_int aid
                    (db_execute flt
                       (case existing_treatment of
                          Some _ \<Rightarrow> update_treatment aid f (current_timestamp e)
                        | None \<Rightarrow> insert_treatment aid f (current_timestamp e)))) (\<lambda>_.
         bind_db (db_commit flt) (\<lambda>_.
         return_db Success)))))) (\<lambda>out.
       if out = Success then return_db Success
       else
         bind_db (bind_int aid (db_query flt (select_appointment aid))) (\<lambda>_.
         bind_db (bind_int aid (db_query flt (select_treatment aid))) (\<lambda>_.
         return_db out))))) e"

text \<open>Python's \<^verbatim>\<open>str(i)\<close> on a non-negative integer.\<close>

function str :: "nat \<Rightarrow> string" where
  "str n = (if n < 10 then [''0123456789'' ! n]
            else str (n div 10) @ [''0123456789'' ! (n mod 10)])"
  by pat_completeness auto
termination
  by (relation "measure id") auto

declare str.simps [simp del]

record availability_form =
  dates :: "string list"
  start_times :: "string list"
  end_times :: "string list"
  availabilities :: "string list"

text \<open>\<^verbatim>\<open>xs[i]\<close> raises IndexError out of range.\<close>

definition subscript :: "'a list \<Rightarrow> nat \<Rightarrow> 'a db_action" where
  "subscript xs i = (if i < length xs then return_db (xs ! i) else raise_db IndexError)"

text \<open>One round of the loop of \<^verbatim>\<open>availability\<close>: look the window up by (doctor, date, start
  time), update it by its \<^verbatim>\<open>availability_id\<close> or insert a new one.\<close>

definition availability_round ::
  "fault \<Rightarrow> sqlite \<Rightarrow> nat \<Rightarrow> availability_form \<Rightarrow> nat \<Rightarrow> unit db_action" where
  "availability_round flt L did f i =
     bind_db (subscript (dates f) i) (\<lambda>date.
     bind_db (subscript (start_times f) i) (\<lambda>st.
     bind_db (subscript (end_times f) i) (\<lambda>en.
     bind_db (db_query flt (select_window L did date st)) (\<lambda>existing.
     case existing of
       Some w \<Rightarrow> db_execute flt (update_window L (availability_id w) en
                   (str i \<in> set (availabilities f)))
     | None \<Rightarrow> db_execute flt (insert_window L did date st en
                   (str i \<in> set (availabilities f)))))))"

fun availability_loop ::
  "fault \<Rightarrow> sqlite \<Rightarrow> nat \<Rightarrow> availability_form \<Rightarrow> nat list \<Rightarrow> unit db_action" where
  "availability_loop flt L did f [] = return_db ()"
| "availability_loop flt L did f (i # rest) =
     bind_db (availability_round flt L did f i) (\<lambda>_. availability_loop flt L did f rest)"

text \<open>\<^verbatim>\<open>availability\<close>, the POST branch. After its \<^verbatim>\<open>except\<close> branch the handler goes on to
  render the page, which reads and never writes; the model ends at the outcome.\<close>

definition availability ::
  "fault \<Rightarrow> env \<Rightarrow> availability_form \<Rightarrow> database \<Rightarrow> outcome \<times> database" where
  "availability flt e f =
     role_required ''doctor'' (\<lambda>u. run_request (
       bind_db (db_query flt (select_doctor (user_id u))) (\<lambda>doctor.
       case doctor of
         None \<Rightarrow> raise_db TypeError
       | Some d \<Rightarrow>
           try_except (
             bind_db (availability_loop flt (sqlite3 e) (doctor_id d) f
                        [0..<length (dates f)]) (\<lambda>_.
             bind_db (db_commit flt) (\<lambda>_.
             return_db Success)))))) e"

section \<open>Admin routes (blueprints/admin.py)\<close>

text \<open>\<^verbatim>\<open>update_appointment\<close>: the status UPDATE alone.\<close>

definition admin_update_appointment ::
  "fault \<Rightarrow> env \<Rightarrow> nat \<Rightarrow> string option \<Rightarrow> database \<Rightarrow> outcome \<times> database" where
  "admin_update_appointment flt e aid st =
     role_required ''admin'' (\<lambda>u. run_request (
       try_except (
         bind_db (bind_int aid
                    (db_execute flt (update_status aid st (current_timestamp e)))) (\<lambda>_.
         bind_db (db_commit flt) (\<lambda>_.
         return_db Success))))) e"

section \<open>Runs of the system and its invariants\<close>

datatype request =
    Book fault env booking_form
  | Cancel fault env nat
  | DoctorUpdate fault env nat treatment_form
  | AdminUpdate fault env nat "string option"
  | DeclareAvailability fault env availability_form

fun handle :: "request \<Rightarrow> database \<Rightarrow> outcome \<times> database" where
  "handle (Book flt e f) db = book_appointment flt e f db"
| "handle (Cancel flt e aid) db = cancel_appointment flt e aid db"
| "handle (DoctorUpdate flt e aid f) db = doctor_update_appointment flt e aid f db"
| "handle (AdminUpdate flt e aid st) db = admin_update_appointment flt e aid st db"
| "handle (DeclareAvailability flt e f) db = availability flt e f db"

text \<open>Requests served one after another: each runs from its connect to its close before
  the next one starts. The server can also work on several requests at once, each on a
  connection of its own; an interleaving of the statements of two requests is not a run in
  this sense, and the statements below about runs say nothing about it.\<close>

fun serial_run :: "request list \<Rightarrow> database \<Rightarrow> database" where
  "serial_run [] db = db"
| "serial_run (r # rs) db = serial_run rs (snd (handle r db))"

text \<open>The slot of an appointment, as stored, and the appointments that hold their slot:
  those whose status is outside \<^verbatim>\<open>('Cancelled', 'Rescheduled')\<close>, a NULL status included.\<close>

definition slot :: "appointment \<Rightarrow> nat \<times> sqlval \<times> sqlval" where
  "slot a = (ap_doctor_id a, appointment_date a, appointment_time a)"

definition holds :: "appointment \<Rightarrow> bool" where
  "holds a = (status a \<noteq> Some ''Cancelled'' \<and> status a \<noteq> Some ''Rescheduled'')"

definition no_double_booking :: "database \<Rightarrow> bool" where
  "no_double_booking db = distinct (map slot (filter holds (appointments db)))"

text \<open>The keys of the schema: \<^verbatim>\<open>appointment_id\<close> and \<^verbatim>\<open>availability_id\<close> are primary keys,
  \<^verbatim>\<open>treatments.appointment_id\<close> is UNIQUE, and so is (doctor_id, date, start_time) in
  \<^verbatim>\<open>doctor_availability\<close>.\<close>

definition appointment_ids_unique :: "database \<Rightarrow> bool" where
  "appointment_ids_unique db = distinct (map appointment_id (appointments db))"

definition treatments_unique :: "database \<Rightarrow> bool" where
  "treatments_unique db = distinct (map tr_appointment_id (treatments db))"

definition windows_unique :: "database \<Rightarrow> bool" where
  "windows_unique db =
     (distinct (map availability_id (doctor_availability db))
      \<and> distinct (map window_key (doctor_availability db)))"

definition statuses_checked :: "database \<Rightarrow> bool" where
  "statuses_checked db = (\<forall>a \<in> set (appointments db). status_check (status a))"

text \<open>Every appointment has a status: the column has a default and no \<^verbatim>\<open>NOT NULL\<close>, and a
  booking always writes \<^verbatim>\<open>'Booked'\<close>.\<close>

definition statuses_set :: "database \<Rightarrow> bool" where
  "statuses_set db = (\<forall>a \<in> set (appointments db). status a \<noteq> None)"

text \<open>A status update keeps the slots when, for the appointment it writes (the
  identifier exists and the CHECK constraint admits the posted status), it posts a status,
  and does not make the appointment hold a slot that another appointment holds: the posted
  status is Cancelled or Rescheduled, or the appointment holds its slot already, or no
  appointment holds that slot.\<close>

definition keeps_slots :: "nat \<Rightarrow> string option \<Rightarrow> database \<Rightarrow> bool" where
  "keeps_slots aid st db =
     (\<forall>a \<in> set (appointments db). appointment_id a = aid \<and> status_check st \<longrightarrow>
        st \<noteq> None
        \<and> (st = Some ''Cancelled'' \<or> st = Some ''Rescheduled'' \<or> holds a
            \<or> \<not> (\<exists>b \<in> set (appointments db). holds b \<and> slot b = slot a)))"

text \<open>The requests of a run that the invariant is stated for: status updates that keep
  the slots, and bookings for a doctor identifier that SQLite holds as an integer. Nothing
  is asked of cancellations and availability declarations.\<close>

fun admissible :: "request \<Rightarrow> database \<Rightarrow> bool" where
  "admissible (DoctorUpdate flt e aid f) db = keeps_slots aid (tf_status f) db"
| "admissible (AdminUpdate flt e aid st) db = keeps_slots aid st db"
| "admissible (Book flt e f) db = (case bf_doctor_id f of Some did \<Rightarrow> did < 2 ^ 63 | None \<Rightarrow> True)"
| "admissible _ db = True"

fun admissible_run :: "request list \<Rightarrow> database \<Rightarrow> bool" where
  "admissible_run [] db = True"
| "admissible_run (r # rs) db = (admissible r db \<and> admissible_run rs (snd (handle r db)))"

text \<open>The rows of the treatment table that belong to an appointment.\<close>

definition treatments_of :: "nat \<Rightarrow> database \<Rightarrow> treatment list" where
  "treatments_of aid db = filter (\<lambda>t. tr_appointment_id t = aid) (treatments db)"

definition holds_form :: "treatment_form \<Rightarrow> treatment \<Rightarrow> bool" where
  "holds_form f t =
     (diagnosis t = tf_diagnosis f \<and> prescription t = tf_prescription f
      \<and> tr_notes t = tf_notes f \<and> follow_up_date t = tf_follow_up_date f)"

text \<open>A booking request for a slot: a form with its three required fields.\<close>

definition booking ::
  "nat \<Rightarrow> date \<Rightarrow> time_of_day \<Rightarrow> string option \<Rightarrow> booking_form" where
  "booking did dt tm rsn =
     \<lparr>bf_doctor_id = Some did, bf_appointment_date = Some dt,
      bf_appointment_time = Some tm, bf_reason = rsn\<rparr>"

text \<open>Whether a window covers a time, as the availability query reads them: \<^verbatim>\<open>time\<close> of the
  posted text lies between \<^verbatim>\<open>time\<close> of the stored start and \<^verbatim>\<open>time\<close> of the stored end, the
  three being times of day (not NULL).\<close>

definition covers :: "sqlite \<Rightarrow> availability \<Rightarrow> time_of_day \<Rightarrow> bool" where
  "covers L w tm =
     (\<exists>x y z. sql_time L (SqlText tm) = Some x \<and> sql_time L (start_time w) = Some y
        \<and> sql_time L (end_time w) = Some z \<and> y \<le> x \<and> x \<le> z)"

text \<open>What the specification says of declaring a window (section 4.1, \<^verbatim>\<open>declareWindow\<close>): an
  upsert by the natural key (clinician, date, start). If a window with the key exists, its
  end time and its open flag are updated; otherwise a window is inserted.\<close>

definition declare_window ::
  "nat \<Rightarrow> availability list \<Rightarrow> sqlval \<times> sqlval \<times> sqlval \<times> bool \<Rightarrow> availability list" where
  "declare_window did ws row =
     (case row of (d, s, en, opn) \<Rightarrow>
        if (did, d, s) \<in> window_key ` set ws
        then map (\<lambda>w. if window_key w = (did, d, s)
                      then w\<lparr>end_time := en, is_available := opn\<rparr> else w) ws
        else ws @ [\<lparr>availability_id = next_id (map availability_id ws), av_doctor_id = did,
                    av_date = d, start_time = s, end_time = en, is_available = opn\<rparr>])"

text \<open>The window that row \<open>i\<close> of the posted form declares: date, start and end as SQLite
  stores them, and the open flag, which is set when the decimal numeral of \<open>i\<close> is among
  the posted \<^verbatim>\<open>is_available[]\<close> values.\<close>

definition posted_window ::
  "sqlite \<Rightarrow> availability_form \<Rightarrow> nat \<Rightarrow> sqlval \<times> sqlval \<times> sqlval \<times> bool" where
  "posted_window L f i =
     (numeric_affinity L (dates f ! i), numeric_affinity L (start_times f ! i),
      numeric_affinity L (end_times f ! i), str i \<in> set (availabilities f))"

text \<open>The number a decimal numeral denotes, and the numerals without a superfluous
  leading zero.\<close>

definition decimal_value :: "string \<Rightarrow> nat" where
  "decimal_value s = foldl (\<lambda>n c. 10 * n + (of_char c - 48)) 0 s"

definition decimal_numeral :: "string \<Rightarrow> bool" where
  "decimal_numeral s =
     (s \<noteq> [] \<and> set s \<subseteq> set ''0123456789'' \<and> (hd s = CHR ''0'' \<longrightarrow> s = ''0''))"

text \<open>What a statement of the \<^verbatim>\<open>availability\<close> loop may do to a connection: nothing is
  committed, only the window table of the working copy changes, and its keys stay unique.\<close>

definition ledger_step :: "conn \<Rightarrow> conn \<Rightarrow> bool" where
  "ledger_step c c' =
     (committed c' = committed c
      \<and> working c' = (working c)\<lparr>doctor_availability := doctor_availability (working c')\<rparr>
      \<and> (windows_unique (working c) \<longrightarrow> windows_unique (working c')))"

section \<open>A small clinic\<close>

text \<open>The examples post ISO dates and \<^verbatim>\<open>'HH:MM'\<close> times. On these texts SQLite is the
  following: none of them reads as a number, so each is stored as it is, and \<^verbatim>\<open>time('HH:MM')\<close>
  is \<^verbatim>\<open>'HH:MM:00'\<close>. The definition is meant for these texts only and serves the examples;
  it is no description of SQLite on other values.\<close>

definition hhmm :: "string \<Rightarrow> bool" where
  "hhmm s =
     (case s of
        [h1, h2, c, m1, m2] \<Rightarrow>
          c = CHR '':'' \<and> set [h1, h2, m1, m2] \<subseteq> set ''0123456789''
          \<and> [h1, h2] \<le> ''23'' \<and> [m1, m2] \<le> ''59''
      | _ \<Rightarrow> False)"

definition clock_sqlite :: sqlite where
  "clock_sqlite =
     \<lparr>numeric_affinity = SqlText,
      sql_time = (\<lambda>v. case v of
                     SqlText s \<Rightarrow> if hhmm s then Some (s @ '':00'') else None
                   | SqlNumber x \<Rightarrow> None)\<rparr>"

definition logged_in :: "nat \<Rightarrow> string \<Rightarrow> date \<Rightarrow> timestamp \<Rightarrow> env" where
  "logged_in uid r d ts =
     \<lparr>today = d, current_timestamp = ts, current_user = Some \<lparr>user_id = uid, role = r\<rparr>,
      sqlite3 = clock_sqlite\<rparr>"

text \<open>Two patients (users 11 and 12), two doctors (users 21 and 22), and one open window
  of doctor 1 on 2025-06-10 from 09:00 to 12:00, as the seeding of \<^verbatim>\<open>database.py\<close> makes them.
  The examples below run on it.\<close>

definition clinic :: database where
  "clinic =
     \<lparr>patients =
        [\<lparr>patient_id = 1, patient_user_id = 11, patient_status = ''active''\<rparr>,
         \<lparr>patient_id = 2, patient_user_id = 12, patient_status = ''active''\<rparr>],
      doctors =
        [\<lparr>doctor_id = 1, doctor_user_id = 21, doctor_status = ''active''\<rparr>,
         \<lparr>doctor_id = 2, doctor_user_id = 22, doctor_status = ''active''\<rparr>],
      doctor_availability =
        [\<lparr>availability_id = 1, av_doctor_id = 1, av_date = SqlText ''2025-06-10'',
          start_time = SqlText ''09:00'', end_time = SqlText ''12:00'', is_available = True\<rparr>],
      appointments = [],
      treatments = []\<rparr>"

definition visit :: "nat \<Rightarrow> nat \<Rightarrow> string \<Rightarrow> appointment" where
  "visit aid pid st =
     \<lparr>appointment_id = aid, ap_patient_id = pid, ap_doctor_id = 1,
      appointment_date = SqlText ''2025-06-10'', appointment_time = SqlText ''09:30'',
      status = Some st, reason = None, ap_created_at = 100, ap_updated_at = 100\<rparr>"

definition busy_clinic :: database where
  "busy_clinic = clinic\<lparr>appointments := [visit 1 1 ''Booked'']\<rparr>"

definition patient_env :: "nat \<Rightarrow> date \<Rightarrow> env" where
  "patient_env uid d = logged_in uid ''patient'' d 100"

definition doctor_env :: "nat \<Rightarrow> env" where
  "doctor_env uid = logged_in uid ''doctor'' ''2025-06-10'' 200"

definition admin_env :: env where
  "admin_env = logged_in 1 ''admin'' ''2025-06-01'' 300"

definition slot_request :: booking_form where
  "slot_request = booking 1 ''2025-06-10'' ''09:30'' None"

definition findings :: "string \<Rightarrow> string \<Rightarrow> treatment_form" where
  "findings st dx =
     \<lparr>tf_status = Some st, tf_diagnosis = Some dx, tf_prescription = Some ''rest'',
      tf_notes = None, tf_follow_up_date = None\<rparr>"

text \<open>Patient 1 books the slot and cancels, patient 2 books the slot that became free, and
  the administrator sets the cancelled appointment back to Booked.\<close>

definition revival :: "request list" where
  "revival =
     [Book None (patient_env 11 ''2025-06-01'') slot_request,
      Cancel None (patient_env 11 ''2025-06-01'') 1,
      Book None (patient_env 12 ''2025-06-01'') slot_request,
      AdminUpdate None admin_env 1 (Some ''Booked'')]"

text \<open>Patient 1 books the slot, the doctor saves a treatment from a form without the
  status field, and patient 2 books the same slot.\<close>

definition unset_status :: "request list" where
  "unset_status =
     [Book None (patient_env 11 ''2025-06-01'') slot_request,
      DoctorUpdate None (doctor_env 21) 1 ((findings ''Booked'' ''flu'')\<lparr>tf_status := None\<rparr>),
      Book None (patient_env 12 ''2025-06-01'') slot_request]"

text \<open>A morning in which every status update keeps the slots. Patient 1 books and cancels,
  the administrator sets the appointment back to Booked while the slot is free, patient 2
  is refused the slot, the doctor completes the visit, patient 1 cancels it, and patient 2
  now gets the slot.\<close>

definition morning :: "request list" where
  "morning =
     [Book None (patient_env 11 ''2025-06-01'') slot_request,
      Cancel None (patient_env 11 ''2025-06-01'') 1,
      AdminUpdate None admin_env 1 (Some ''Booked''),
      Book None (patient_env 12 ''2025-06-01'') slot_request,
      DoctorUpdate None (doctor_env 21) 1 (findings ''Completed'' ''flu''),
      Cancel None (patient_env 11 ''2025-06-01'') 1,
      Book None (patient_env 12 ''2025-06-01'') slot_request]"

text \<open>Patient 1 and doctor 1 after \<^verbatim>\<open>delete_patient\<close> and \<^verbatim>\<open>delete_doctor\<close>, which set both
  status columns to \<^verbatim>\<open>'blacklisted'\<close>.\<close>

definition blacklisted_clinic :: database where
  "blacklisted_clinic =
     clinic\<lparr>patients :=
        [\<lparr>patient_id = 1, patient_user_id = 11, patient_status = ''blacklisted''\<rparr>,
         \<lparr>patient_id = 2, patient_user_id = 12, patient_status = ''active''\<rparr>],
      doctors :=
        [\<lparr>doctor_id = 1, doctor_user_id = 21, doctor_status = ''blacklisted''\<rparr>,
         \<lparr>doctor_id = 2, doctor_user_id = 22, doctor_status = ''active''\<rparr>]\<rparr>"

text \<open>A form of two rows for doctor 1: the window that starts at 09:00 gets the end 13:00
  and is closed (the numeral of row 0 is not posted), the window from 14:00 to 17:00 is
  open (the numeral of row 1 is posted).\<close>

definition two_windows :: availability_form where
  "two_windows =
     \<lparr>dates = [''2025-06-10'', ''2025-06-10''], start_times = [''09:00'', ''14:00''],
      end_times = [''13:00'', ''17:00''], availabilities = [''1'']\<rparr>"

section \<open>What each handler does to the stored state\<close>

lemmas db_defs = db_query_def db_execute_def db_commit_def bind_int_def return_db_def
  raise_db_def bind_db_def try_except_def run_request_def connect_def close_def rollback_def
  role_required_def

lemma foldr_max_ge: "i \<in> set ids \<Longrightarrow> i \<le> foldr max ids (0::nat)"
  by (induction ids) auto

lemma next_id_fresh: "next_id ids \<notin> set ids"
proof
  assume "next_id ids \<in> set ids"
  then have "next_id ids \<le> foldr max ids 0" by (rule foldr_max_ge)
  then show False by (simp add: next_id_def)
qed

subsection \<open>Booking\<close>

text \<open>On a healthy store, a complete form posted by a patient with a profile runs through
  the four checks in the order of the source.\<close>

lemma book_appointment_flat:
  assumes "current_user e = Some u" "role u = ''patient''"
    and "select_patient (user_id u) db = Some p" "dt \<noteq> []" "tm \<noteq> []"
  shows "book_appointment None e (booking did dt tm rsn) db =
     (if dt < today e then (Rejected PastBooking, db)
      else if select_existing (sqlite3 e) did dt tm db \<noteq> None then (Rejected SlotTaken, db)
      else if select_available (sqlite3 e) did dt tm db = None then (Rejected NotAvailable, db)
      else (Success, db\<lparr>appointments := appointments db @
        [\<lparr>appointment_id = next_id (map appointment_id (appointments db)),
          ap_patient_id = patient_id p, ap_doctor_id = did,
          appointment_date = numeric_affinity (sqlite3 e) dt,
          appointment_time = numeric_affinity (sqlite3 e) tm,
          status = Some ''Booked'', reason = rsn,
          ap_created_at = current_timestamp e, ap_updated_at = current_timestamp e\<rparr>]\<rparr>))"
  using assms
  by (simp add: book_appointment_def booking_def db_defs insert_appointment_def)

text \<open>Whatever the fault, a booking request leaves the store as it was or appends one
  Booked appointment at a slot the double-booking query found free.\<close>

lemma book_appointment_effect:
  "snd (book_appointment flt e f db) = db \<or>
   (\<exists>p did dt tm. fst (book_appointment flt e f db) = Success
      \<and> select_existing (sqlite3 e) did dt tm db = None
      \<and> snd (book_appointment flt e f db) = db\<lparr>appointments := appointments db @
        [\<lparr>appointment_id = next_id (map appointment_id (appointments db)),
          ap_patient_id = p, ap_doctor_id = did,
          appointment_date = numeric_affinity (sqlite3 e) dt,
          appointment_time = numeric_affinity (sqlite3 e) tm,
          status = Some ''Booked'', reason = bf_reason f,
          ap_created_at = current_timestamp e, ap_updated_at = current_timestamp e\<rparr>]\<rparr>)"
  by (auto simp add: book_appointment_def db_defs insert_appointment_def
      split: option.splits if_splits)

subsection \<open>Cancellation and the admin override\<close>

lemma cancel_appointment_flat:
  assumes "current_user e = Some u" "role u = ''patient''"
    and "select_patient (user_id u) db = Some p" "aid < 2 ^ 63"
  shows "cancel_appointment None e aid db =
     (case select_appointment_of aid (patient_id p) db of
        None \<Rightarrow> (Rejected AppointmentNotFound, db)
      | Some a \<Rightarrow>
          (case appointment_date a of
             SqlNumber x \<Rightarrow> (Failed TypeError, db)
           | SqlText d \<Rightarrow>
               if d < today e then (Rejected PastCancel, db)
               else (Success, db\<lparr>appointments :=
                       map (\<lambda>b. if appointment_id b = aid
                                then b\<lparr>status := Some ''Cancelled'',
                                       ap_updated_at := current_timestamp e\<rparr>
                                else b) (appointments db)\<rparr>)))"
  using assms
  by (simp add: cancel_appointment_def db_defs update_cancelled_def update_status_def
      status_check_def split: option.splits sqlval.splits)

lemma cancel_appointment_effect:
  "snd (cancel_appointment flt e aid db) = db \<or>
   snd (cancel_appointment flt e aid db) = db\<lparr>appointments :=
      map (\<lambda>b. if appointment_id b = aid
               then b\<lparr>status := Some ''Cancelled'', ap_updated_at := current_timestamp e\<rparr>
               else b) (appointments db)\<rparr>"
  by (auto simp add: cancel_appointment_def db_defs update_cancelled_def update_status_def
      status_check_def split: option.splits if_splits sqlval.splits)

lemma admin_update_effect:
  "snd (admin_update_appointment flt e aid st db) = db \<or>
   snd (admin_update_appointment flt e aid st db) = db\<lparr>appointments :=
      map (\<lambda>b. if appointment_id b = aid
               then b\<lparr>status := st, ap_updated_at := current_timestamp e\<rparr>
               else b) (appointments db)\<rparr>"
  by (auto simp add: admin_update_appointment_def db_defs update_status_def
      split: option.splits if_splits)

text \<open>A status is written only when the CHECK constraint admits it.\<close>

lemma admin_update_checked:
  assumes "snd (admin_update_appointment flt e aid st db) \<noteq> db"
    and "a \<in> set (appointments db)" "appointment_id a = aid"
  shows "status_check st"
  using assms
  by (auto simp add: admin_update_appointment_def db_defs update_status_def
      split: option.splits if_splits)

subsection \<open>The clinician's status update\<close>

lemma select_treatment_None:
  "(select_treatment aid db = None) = (aid \<notin> tr_appointment_id ` set (treatments db))"
  by (auto simp: select_treatment_def find_None_iff)

lemma select_treatment_case:
  "(case select_treatment aid db of Some x \<Rightarrow> A | None \<Rightarrow> B) =
     (if aid \<in> tr_appointment_id ` set (treatments db) then A else B)"
proof (cases "select_treatment aid db")
  case None
  then have "aid \<notin> tr_appointment_id ` set (treatments db)"
    by (simp add: select_treatment_None)
  with None show ?thesis by simp
next
  case (Some t)
  then have "select_treatment aid db \<noteq> None" by simp
  then have "aid \<in> tr_appointment_id ` set (treatments db)"
    by (simp add: select_treatment_None)
  with Some show ?thesis by simp
qed

text \<open>Whatever the fault, the request either succeeds with both writes in the store, or
  does not succeed and leaves the store as it was.\<close>

lemma doctor_update_cases:
  "doctor_update_appointment flt e aid f db =
     (Success, db\<lparr>appointments :=
        map (\<lambda>b. if appointment_id b = aid
                 then b\<lparr>status := tf_status f, ap_updated_at := current_timestamp e\<rparr>
                 else b) (appointments db),
       treatments :=
        (if aid \<in> tr_appointment_id ` set (treatments db)
         then map (\<lambda>t. if tr_appointment_id t = aid
                then t\<lparr>diagnosis := tf_diagnosis f, prescription := tf_prescription f,
                       tr_notes := tf_notes f, follow_up_date := tf_follow_up_date f,
                       tr_updated_at := current_timestamp e\<rparr>
                else t) (treatments db)
         else treatments db @
           [\<lparr>treatment_id = next_id (map treatment_id (treatments db)),
             tr_appointment_id = aid, diagnosis = tf_diagnosis f,
             prescription = tf_prescription f, tr_notes = tf_notes f,
             follow_up_date = tf_follow_up_date f,
             tr_created_at = current_timestamp e, tr_updated_at = current_timestamp e\<rparr>])\<rparr>)
   \<or> (fst (doctor_update_appointment flt e aid f db) \<noteq> Success
      \<and> snd (doctor_update_appointment flt e aid f db) = db)"
  by (auto simp add: doctor_update_appointment_def db_defs update_status_def update_treatment_def
      insert_treatment_def select_treatment_case
      split: option.splits if_splits)

lemma doctor_update_success:
  assumes "current_user e = Some u" "role u = ''doctor''" "aid < 2 ^ 63"
    and "status_check (tf_status f) \<or> aid \<notin> appointment_id ` set (appointments db)"
  shows "fst (doctor_update_appointment None e aid f db) = Success"
  using assms
  by (auto simp add: doctor_update_appointment_def db_defs update_status_def update_treatment_def
      insert_treatment_def select_treatment_case
      split: option.splits if_splits)

lemma doctor_update_checked:
  assumes "fst (doctor_update_appointment flt e aid f db) = Success"
    and "a \<in> set (appointments db)" "appointment_id a = aid"
  shows "status_check (tf_status f)"
  using assms
  by (auto simp add: doctor_update_appointment_def db_defs update_status_def
      split: option.splits if_splits)

text \<open>An identifier beyond 64 bits is refused at the first statement and again at the
  first SELECT of the page: the request ends with HTTP 500 and nothing is written.\<close>

lemma doctor_update_overflow:
  assumes "current_user e = Some u" "role u = ''doctor''" "\<not> aid < 2 ^ 63"
  shows "doctor_update_appointment flt e aid f db = (Crashed OverflowError, db)"
  using assms by (simp add: doctor_update_appointment_def db_defs)

subsection \<open>Declaring availability\<close>

lemma update_window_ids:
  "availability_id \<circ> (\<lambda>w. if P w then w\<lparr>end_time := en, is_available := av\<rparr> else w) =
   availability_id"
  by (auto simp: fun_eq_iff)

lemma update_window_keys:
  "window_key \<circ> (\<lambda>w. if P w then w\<lparr>end_time := en, is_available := av\<rparr> else w) =
   window_key"
  by (auto simp: fun_eq_iff window_key_def)

lemma update_window_unique:
  "windows_unique db \<Longrightarrow> update_window L wid en av db = Inr db' \<Longrightarrow> windows_unique db'"
  by (auto simp: windows_unique_def update_window_def update_window_ids update_window_keys)

lemma insert_window_unique:
  "windows_unique db \<Longrightarrow> insert_window L did dt st en av db = Inr db' \<Longrightarrow> windows_unique db'"
  using next_id_fresh [of "map availability_id (doctor_availability db)"]
  by (auto simp: windows_unique_def insert_window_def window_key_def split: if_splits)

lemma ledger_step_refl: "ledger_step c c"
  by (simp add: ledger_step_def)

lemma ledger_step_trans: "ledger_step c c1 \<Longrightarrow> ledger_step c1 c2 \<Longrightarrow> ledger_step c c2"
  unfolding ledger_step_def
  by (metis (no_types, lifting) database.surjective database.update_convs(3))

lemma ledger_bind:
  assumes "bind_db m g c = (r, c')"
    and "\<And>r1 c1. m c = (r1, c1) \<Longrightarrow> ledger_step c c1"
    and "\<And>a c1 r2 c2. m c = (Inr a, c1) \<Longrightarrow> g a c1 = (r2, c2) \<Longrightarrow> ledger_step c1 c2"
  shows "ledger_step c c'"
proof (cases "m c")
  case (Pair r1 c1)
  show ?thesis
  proof (cases r1)
    case (Inl x)
    with Pair assms(1) have "c' = c1" by (simp add: bind_db_def)
    with Pair assms(2) show ?thesis by simp
  next
    case (Inr a)
    with Pair assms(1) have "g a c1 = (r, c')" by (simp add: bind_db_def)
    with Pair Inr assms(2,3) ledger_step_trans show ?thesis by blast
  qed
qed

lemma ledger_subscript: "subscript xs i c = (r, c') \<Longrightarrow> ledger_step c c'"
  by (auto simp: subscript_def return_db_def raise_db_def ledger_step_refl split: if_splits)

lemma ledger_query: "db_query flt q c = (r, c') \<Longrightarrow> ledger_step c c'"
  by (auto simp: db_query_def ledger_step_def split: if_splits)

lemma ledger_update:
  "db_execute flt (update_window L wid en av) c = (r, c') \<Longrightarrow> ledger_step c c'"
  using update_window_unique [of "working c" L wid en av]
  by (auto simp: db_execute_def ledger_step_def update_window_def split: if_splits)

lemma ledger_insert:
  "db_execute flt (insert_window L did dt st en av) c = (r, c') \<Longrightarrow> ledger_step c c'"
  using insert_window_unique [of "working c" L did dt st en av]
  by (auto simp: db_execute_def ledger_step_def insert_window_def split: if_splits)

lemma ledger_round: "availability_round flt L did f i c = (r, c') \<Longrightarrow> ledger_step c c'"
  unfolding availability_round_def
  apply (erule ledger_bind, erule ledger_subscript)
  apply (erule ledger_bind, erule ledger_subscript)
  apply (erule ledger_bind, erule ledger_subscript)
  apply (erule ledger_bind, erule ledger_query)
  apply (auto split: option.splits elim: ledger_update ledger_insert)
  done

lemma ledger_loop: "availability_loop flt L did f is c = (r, c') \<Longrightarrow> ledger_step c c'"
proof (induction "is" arbitrary: c r c')
  case Nil
  then show ?case by (simp add: return_db_def ledger_step_refl)
next
  case (Cons i rest)
  from Cons.prems show ?case
    unfolding availability_loop.simps
    by (rule ledger_bind) (auto elim: ledger_round Cons.IH)
qed

lemma availability_try:
  assumes "try_except (bind_db (availability_loop flt L did f is)
             (\<lambda>_. bind_db (db_commit flt) (\<lambda>_. return_db Success))) c = (r, c')"
    and "working c = committed c"
  shows "committed c' =
           (committed c)\<lparr>doctor_availability := doctor_availability (committed c')\<rparr>
         \<and> (windows_unique (committed c) \<longrightarrow> windows_unique (committed c'))"
proof (cases "availability_loop flt L did f is c")
  case (Pair r1 c1)
  then have "ledger_step c c1" by (rule ledger_loop)
  with Pair assms show ?thesis
    by (auto simp: try_except_def bind_db_def db_commit_def return_db_def rollback_def
        ledger_step_def split: sum.splits if_splits)
qed

text \<open>Whatever the form and the fault, the handler changes the window table only, and the
  keys of the table stay unique.\<close>

lemma availability_effect:
  "snd (availability flt e f db) =
     db\<lparr>doctor_availability := doctor_availability (snd (availability flt e f db))\<rparr>
   \<and> (windows_unique db \<longrightarrow> windows_unique (snd (availability flt e f db)))"
proof (cases "current_user e")
  case None
  then show ?thesis by (simp add: availability_def role_required_def)
next
  case (Some u)
  show ?thesis
  proof (cases "role u = ''doctor'' \<and> flt \<noteq> Some 0 \<and> select_doctor (user_id u) db \<noteq> None")
    case False
    with Some show ?thesis
      by (auto simp: availability_def db_defs split: option.splits)
  next
    case True
    then obtain d where d: "select_doctor (user_id u) db = Some d" by auto
    let ?c = "(connect db)\<lparr>calls := Suc 0\<rparr>"
    let ?body = "try_except (bind_db
        (availability_loop flt (sqlite3 e) (doctor_id d) f [0..<length (dates f)])
        (\<lambda>_. bind_db (db_commit flt) (\<lambda>_. return_db Success)))"
    obtain r c' where t: "?body ?c = (r, c')"
      by (cases "?body ?c") auto
    have w: "working ?c = committed ?c" by (simp add: connect_def)
    have "snd (availability flt e f db) = committed c'"
      using Some True d t
      by (auto simp: availability_def role_required_def run_request_def bind_db_def db_query_def
          close_def connect_def split: sum.splits)
    with availability_try [OF t w] show ?thesis by (simp add: connect_def)
  qed
qed

subsection \<open>The rounds of the availability loop on a healthy store\<close>

lemma same_row:
  assumes "distinct (map k xs)" "x \<in> set xs" "y \<in> set xs" "k x = k y"
  shows "x = y"
  using assms by (meson distinct_map inj_onD)

lemma select_window_None:
  "(select_window L did dt st db = None) =
     ((did, numeric_affinity L dt, numeric_affinity L st)
        \<notin> window_key ` set (doctor_availability db))"
  by (auto simp: select_window_def find_None_iff window_key_def image_iff)

lemma select_window_Some:
  assumes "select_window L did dt st db = Some w"
  shows "w \<in> set (doctor_availability db)
     \<and> window_key w = (did, numeric_affinity L dt, numeric_affinity L st)"
proof -
  let ?ws = "doctor_availability db"
  from assms obtain i where "i < length ?ws"
    "av_doctor_id (?ws ! i) = did \<and> av_date (?ws ! i) = numeric_affinity L dt
        \<and> start_time (?ws ! i) = numeric_affinity L st"
    "w = ?ws ! i"
    unfolding select_window_def find_Some_iff by blast
  then show ?thesis by (simp add: window_key_def)
qed

text \<open>With unique identifiers and unique keys, the UPDATE by \<^verbatim>\<open>availability_id\<close> of the row
  that the SELECT found is the update of the row with the key.\<close>

lemma update_by_id_by_key:
  assumes "windows_unique db" "w \<in> set (doctor_availability db)" "window_key w = k"
  shows "map (\<lambda>x. if availability_id x = availability_id w
                  then x\<lparr>end_time := en, is_available := av\<rparr> else x) (doctor_availability db) =
         map (\<lambda>x. if window_key x = k
                  then x\<lparr>end_time := en, is_available := av\<rparr> else x) (doctor_availability db)"
proof -
  from assms(1) have ids: "distinct (map availability_id (doctor_availability db))"
    and keys: "distinct (map window_key (doctor_availability db))"
    by (simp_all add: windows_unique_def)
  have "(availability_id x = availability_id w) = (window_key x = k)"
    if "x \<in> set (doctor_availability db)" for x
    using same_row [OF ids that assms(2)] same_row [OF keys that assms(2)] assms(3) by auto
  then show ?thesis by (intro map_cong) simp_all
qed

lemma availability_round_healthy:
  assumes "windows_unique (working c)"
    and "i < length (dates f)" "i < length (start_times f)" "i < length (end_times f)"
  shows "availability_round None L did f i c =
     (Inr (), c\<lparr>working := (working c)\<lparr>doctor_availability :=
        declare_window did (doctor_availability (working c)) (posted_window L f i)\<rparr>,
        calls := Suc (Suc (calls c))\<rparr>)"
proof (cases "select_window L did (dates f ! i) (start_times f ! i) (working c)")
  case None
  then have "(did, numeric_affinity L (dates f ! i), numeric_affinity L (start_times f ! i))
      \<notin> window_key ` set (doctor_availability (working c))"
    by (simp add: select_window_None)
  with None assms(2-4) show ?thesis
    by (simp add: availability_round_def subscript_def db_defs insert_window_def
        declare_window_def posted_window_def)
next
  case (Some w)
  let ?k = "(did, numeric_affinity L (dates f ! i), numeric_affinity L (start_times f ! i))"
  from select_window_Some [OF Some]
  have w: "w \<in> set (doctor_availability (working c))" "window_key w = ?k"
    by simp_all
  from w have "?k \<in> window_key ` set (doctor_availability (working c))"
    by (metis imageI)
  with Some assms(2-4) update_by_id_by_key [OF assms(1) w] show ?thesis
    by (simp add: availability_round_def subscript_def db_defs update_window_def
        declare_window_def posted_window_def)
qed

lemma declare_window_unique:
  assumes "distinct (map availability_id ws)" "distinct (map window_key ws)"
  shows "distinct (map availability_id (declare_window did ws row))
     \<and> distinct (map window_key (declare_window did ws row))"
proof (cases row)
  case (fields d s en opn)
  show ?thesis
  proof (cases "(did, d, s) \<in> window_key ` set ws")
    case True
    with assms fields show ?thesis
      by (simp add: declare_window_def update_window_ids update_window_keys)
  next
    case False
    with assms fields next_id_fresh [of "map availability_id ws"] show ?thesis
      by (simp add: declare_window_def window_key_def)
  qed
qed

lemma availability_loop_healthy:
  assumes "windows_unique (working c)"
    and "\<forall>i \<in> set is. i < length (dates f) \<and> i < length (start_times f)
           \<and> i < length (end_times f)"
  shows "availability_loop None L did f is c =
     (Inr (), c\<lparr>working := (working c)\<lparr>doctor_availability :=
        foldl (declare_window did) (doctor_availability (working c))
          (map (posted_window L f) is)\<rparr>,
        calls := calls c + 2 * length is\<rparr>)"
  using assms
proof (induction "is" arbitrary: c)
  case Nil
  show ?case by (simp add: return_db_def)
next
  case (Cons i rest)
  let ?ws = "declare_window did (doctor_availability (working c)) (posted_window L f i)"
  let ?c = "c\<lparr>working := (working c)\<lparr>doctor_availability := ?ws\<rparr>,
      calls := Suc (Suc (calls c))\<rparr>"
  from Cons.prems availability_round_healthy [of c i f L did]
  have round: "availability_round None L did f i c = (Inr (), ?c)"
    by simp
  from Cons.prems(1) declare_window_unique [of "doctor_availability (working c)" did
      "posted_window L f i"]
  have "windows_unique (working ?c)" by (simp add: windows_unique_def)
  moreover from Cons.prems(2) have "\<forall>i \<in> set rest. i < length (dates f)
      \<and> i < length (start_times f) \<and> i < length (end_times f)"
    by simp
  ultimately have "availability_loop None L did f rest ?c =
     (Inr (), ?c\<lparr>working := (working ?c)\<lparr>doctor_availability :=
        foldl (declare_window did) (doctor_availability (working ?c))
          (map (posted_window L f) rest)\<rparr>,
        calls := calls ?c + 2 * length rest\<rparr>)"
    by (rule Cons.IH)
  with round show ?case by (simp add: bind_db_def)
qed

lemma availability_healthy:
  assumes "current_user e = Some u" "role u = ''doctor''"
    and "select_doctor (user_id u) db = Some d"
    and "windows_unique db"
    and "length (dates f) \<le> length (start_times f)" "length (dates f) \<le> length (end_times f)"
  shows "availability None e f db =
     (Success, db\<lparr>doctor_availability :=
        foldl (declare_window (doctor_id d)) (doctor_availability db)
          (map (posted_window (sqlite3 e) f) [0..<length (dates f)])\<rparr>)"
proof -
  let ?c = "\<lparr>committed = db, working = db, calls = Suc 0\<rparr>"
  have "windows_unique (working ?c)" using assms(4) by simp
  moreover have "\<forall>i \<in> set [0..<length (dates f)]. i < length (dates f)
      \<and> i < length (start_times f) \<and> i < length (end_times f)"
    using assms(5,6) by simp
  ultimately have "availability_loop None (sqlite3 e) (doctor_id d) f
      [0..<length (dates f)] ?c =
     (Inr (), ?c\<lparr>working := (working ?c)\<lparr>doctor_availability :=
        foldl (declare_window (doctor_id d)) (doctor_availability (working ?c))
          (map (posted_window (sqlite3 e) f) [0..<length (dates f)])\<rparr>,
        calls := calls ?c + 2 * length [0..<length (dates f)]\<rparr>)"
    by (rule availability_loop_healthy)
  with assms(1-3) show ?thesis
    by (simp add: availability_def db_defs)
qed

subsection \<open>Slots that are held\<close>

lemma no_double_booking_inj:
  assumes "appointment_ids_unique db"
  shows "no_double_booking db = inj_on slot {a \<in> set (appointments db). holds a}"
proof -
  from assms have "distinct (appointments db)"
    by (simp add: appointment_ids_unique_def distinct_map)
  then have "distinct (filter holds (appointments db))" by simp
  then show ?thesis by (simp add: no_double_booking_def distinct_map)
qed

lemma holds_status_not_in: "status a \<noteq> None \<Longrightarrow> holds a = status_not_in (status a)"
  by (auto simp: holds_def status_not_in_def)

lemma select_existing_None:
  "(select_existing L did dt tm db = None) =
     (\<not> (\<exists>a \<in> set (appointments db).
            slot a = (did, numeric_affinity L dt, numeric_affinity L tm)
            \<and> status_not_in (status a)))"
  by (auto simp: select_existing_def find_None_iff slot_def)

lemma update_status_ids:
  "appointment_id \<circ> (\<lambda>b. if P b then b\<lparr>status := st, ap_updated_at := now\<rparr> else b) =
   appointment_id"
  by (auto simp: fun_eq_iff)

text \<open>The three properties that a run keeps together: no slot is held twice, the
  appointment identifiers are unique, and every appointment has a status.\<close>

lemma status_update_keeps_slots:
  assumes ndb: "no_double_booking db" and ids: "appointment_ids_unique db"
    and sts: "statuses_set db" and keeps: "keeps_slots aid st db"
    and chk: "\<And>a. a \<in> set (appointments db) \<Longrightarrow> appointment_id a = aid \<Longrightarrow> status_check st"
  shows "no_double_booking (db\<lparr>appointments :=
            map (\<lambda>b. if appointment_id b = aid then b\<lparr>status := st, ap_updated_at := now\<rparr>
                     else b) (appointments db)\<rparr>)
     \<and> appointment_ids_unique (db\<lparr>appointments :=
            map (\<lambda>b. if appointment_id b = aid then b\<lparr>status := st, ap_updated_at := now\<rparr>
                     else b) (appointments db)\<rparr>)
     \<and> statuses_set (db\<lparr>appointments :=
            map (\<lambda>b. if appointment_id b = aid then b\<lparr>status := st, ap_updated_at := now\<rparr>
                     else b) (appointments db)\<rparr>)"
proof -
  let ?g = "\<lambda>b. if appointment_id b = aid then b\<lparr>status := st, ap_updated_at := now\<rparr> else b"
  let ?as = "appointments db"
  let ?db = "db\<lparr>appointments := map ?g ?as\<rparr>"
  have same_slot: "slot (?g z) = slot z" for z by (simp add: slot_def)
  have other: "?g z = z" if "appointment_id z \<noteq> aid" for z using that by simp
  have written: "status (?g z) = st" if "appointment_id z = aid" for z using that by simp
  from ids have dist: "distinct (map appointment_id ?as)"
    by (simp add: appointment_ids_unique_def)
  from ndb ids have inj: "inj_on slot {a \<in> set ?as. holds a}"
    by (simp add: no_double_booking_inj)
  have ids': "appointment_ids_unique ?db"
    using dist by (simp add: appointment_ids_unique_def update_status_ids)
  have held: "holds z" if z: "z \<in> set ?as" "holds (?g z)"
    and w: "w \<in> set ?as" "holds (?g w)" "appointment_id w \<noteq> appointment_id z"
      "slot w = slot z" for z w
  proof (cases "appointment_id z = aid")
    case False
    with z(2) other [OF False] show ?thesis by simp
  next
    case True
    with w(3) have "appointment_id w \<noteq> aid" by simp
    with w(2) other [of w] have hw: "holds w" by simp
    from z(2) written [OF True] have live: "st \<noteq> Some ''Cancelled''" "st \<noteq> Some ''Rescheduled''"
      by (simp_all add: holds_def)
    from keeps z(1) True chk [OF z(1) True]
    have "st = Some ''Cancelled'' \<or> st = Some ''Rescheduled'' \<or> holds z
        \<or> \<not> (\<exists>b \<in> set ?as. holds b \<and> slot b = slot z)"
      unfolding keeps_slots_def by blast
    with live w(1,4) hw show ?thesis by blast
  qed
  have "inj_on slot {a \<in> set (map ?g ?as). holds a}"
  proof (rule inj_onI)
    fix x' y'
    assume x': "x' \<in> {a \<in> set (map ?g ?as). holds a}"
      and y': "y' \<in> {a \<in> set (map ?g ?as). holds a}"
      and eq: "slot x' = slot y'"
    from x' have "x' \<in> ?g ` set ?as" and hx: "holds x'"
      by (simp_all only: mem_Collect_eq set_map)
    from this(1) obtain x where x: "x' = ?g x" "x \<in> set ?as" by (rule imageE)
    from y' have "y' \<in> ?g ` set ?as" and hy: "holds y'"
      by (simp_all only: mem_Collect_eq set_map)
    from this(1) obtain y where y: "y' = ?g y" "y \<in> set ?as" by (rule imageE)
    from eq x(1) y(1) same_slot [of x] same_slot [of y] have slots: "slot x = slot y"
      by simp
    show "x' = y'"
    proof (cases "appointment_id x = appointment_id y")
      case True
      from same_row [OF dist x(2) y(2) True] x(1) y(1) show ?thesis by simp
    next
      case False
      from hx x(1) have gx: "holds (?g x)" by simp
      from hy y(1) have gy: "holds (?g y)" by simp
      from False have False': "appointment_id y \<noteq> appointment_id x" by simp
      from slots have slots': "slot y = slot x" by simp
      have "holds x" using x(2) gx y(2) gy False' slots' by (rule held)
      moreover have "holds y" using y(2) gy x(2) gx False slots by (rule held)
      ultimately have "x = y" using inj x(2) y(2) slots by (simp add: inj_on_def)
      with False show ?thesis by simp
    qed
  qed
  with ids' have ndb': "no_double_booking ?db"
    by (simp add: no_double_booking_inj)
  have "status a' \<noteq> None" if "a' \<in> set (map ?g ?as)" for a'
  proof -
    from that have "a' \<in> ?g ` set ?as" by (simp only: set_map)
    then obtain a where a: "a' = ?g a" "a \<in> set ?as" by (rule imageE)
    show ?thesis
    proof (cases "appointment_id a = aid")
      case True
      with keeps a(2) chk [OF a(2) True] have "st \<noteq> None"
        unfolding keeps_slots_def by blast
      with a(1) written [OF True] show ?thesis by simp
    next
      case False
      with sts a show ?thesis by (simp add: statuses_set_def)
    qed
  qed
  then have "statuses_set ?db" by (simp add: statuses_set_def)
  with ndb' ids' show ?thesis by blast
qed

lemma booked_keeps_slots:
  assumes ndb: "no_double_booking db" and ids: "appointment_ids_unique db"
    and sts: "statuses_set db"
    and free: "select_existing L did dt tm db = None"
  shows "no_double_booking (db\<lparr>appointments := appointments db @
        [\<lparr>appointment_id = next_id (map appointment_id (appointments db)),
          ap_patient_id = p, ap_doctor_id = did,
          appointment_date = numeric_affinity L dt, appointment_time = numeric_affinity L tm,
          status = Some ''Booked'', reason = rsn, ap_created_at = now, ap_updated_at = now\<rparr>]\<rparr>)
     \<and> appointment_ids_unique (db\<lparr>appointments := appointments db @
        [\<lparr>appointment_id = next_id (map appointment_id (appointments db)),
          ap_patient_id = p, ap_doctor_id = did,
          appointment_date = numeric_affinity L dt, appointment_time = numeric_affinity L tm,
          status = Some ''Booked'', reason = rsn, ap_created_at = now, ap_updated_at = now\<rparr>]\<rparr>)
     \<and> statuses_set (db\<lparr>appointments := appointments db @
        [\<lparr>appointment_id = next_id (map appointment_id (appointments db)),
          ap_patient_id = p, ap_doctor_id = did,
          appointment_date = numeric_affinity L dt, appointment_time = numeric_affinity L tm,
          status = Some ''Booked'', reason = rsn, ap_created_at = now, ap_updated_at = now\<rparr>]\<rparr>)"
proof -
  let ?k = "(did, numeric_affinity L dt, numeric_affinity L tm)"
  have other: "slot b \<noteq> ?k" if "b \<in> set (appointments db)" "holds b" for b
  proof -
    from sts that(1) have "status b \<noteq> None" by (simp add: statuses_set_def)
    then have "holds b = status_not_in (status b)" by (rule holds_status_not_in)
    with free that show ?thesis unfolding select_existing_None by blast
  qed
  have "?k \<notin> set (map slot (filter holds (appointments db)))"
  proof
    assume "?k \<in> set (map slot (filter holds (appointments db)))"
    then obtain b where "b \<in> set (appointments db)" "holds b" "slot b = ?k" by auto
    with other show False by blast
  qed
  with ndb have "no_double_booking (db\<lparr>appointments := appointments db @
        [\<lparr>appointment_id = next_id (map appointment_id (appointments db)),
          ap_patient_id = p, ap_doctor_id = did,
          appointment_date = numeric_affinity L dt, appointment_time = numeric_affinity L tm,
          status = Some ''Booked'', reason = rsn, ap_created_at = now, ap_updated_at = now\<rparr>]\<rparr>)"
    by (simp add: no_double_booking_def slot_def holds_def)
  moreover from ids next_id_fresh [of "map appointment_id (appointments db)"]
  have "appointment_ids_unique (db\<lparr>appointments := appointments db @
        [\<lparr>appointment_id = next_id (map appointment_id (appointments db)),
          ap_patient_id = p, ap_doctor_id = did,
          appointment_date = numeric_affinity L dt, appointment_time = numeric_affinity L tm,
          status = Some ''Booked'', reason = rsn, ap_created_at = now, ap_updated_at = now\<rparr>]\<rparr>)"
    by (simp add: appointment_ids_unique_def)
  moreover from sts
  have "statuses_set (db\<lparr>appointments := appointments db @
        [\<lparr>appointment_id = next_id (map appointment_id (appointments db)),
          ap_patient_id = p, ap_doctor_id = did,
          appointment_date = numeric_affinity L dt, appointment_time = numeric_affinity L tm,
          status = Some ''Booked'', reason = rsn, ap_created_at = now, ap_updated_at = now\<rparr>]\<rparr>)"
    by (simp add: statuses_set_def)
  ultimately show ?thesis by blast
qed

lemma treatments_irrelevant:
  "no_double_booking (db\<lparr>treatments := ts\<rparr>) = no_double_booking db"
  "appointment_ids_unique (db\<lparr>treatments := ts\<rparr>) = appointment_ids_unique db"
  "statuses_set (db\<lparr>treatments := ts\<rparr>) = statuses_set db"
  by (simp_all add: no_double_booking_def appointment_ids_unique_def statuses_set_def)

lemma handle_keeps_slots:
  assumes ndb: "no_double_booking db" and ids: "appointment_ids_unique db"
    and sts: "statuses_set db" and adm: "admissible r db"
  shows "no_double_booking (snd (handle r db)) \<and> appointment_ids_unique (snd (handle r db))
     \<and> statuses_set (snd (handle r db))"
proof (cases r)
  case (Book flt e f)
  from book_appointment_effect [of flt e f db] show ?thesis
  proof
    assume "snd (book_appointment flt e f db) = db"
    with ndb ids sts Book show ?thesis by simp
  next
    assume "\<exists>p did dt tm. fst (book_appointment flt e f db) = Success
      \<and> select_existing (sqlite3 e) did dt tm db = None
      \<and> snd (book_appointment flt e f db) = db\<lparr>appointments := appointments db @
        [\<lparr>appointment_id = next_id (map appointment_id (appointments db)),
          ap_patient_id = p, ap_doctor_id = did,
          appointment_date = numeric_affinity (sqlite3 e) dt,
          appointment_time = numeric_affinity (sqlite3 e) tm,
          status = Some ''Booked'', reason = bf_reason f,
          ap_created_at = current_timestamp e, ap_updated_at = current_timestamp e\<rparr>]\<rparr>"
    then obtain p did dt tm where
      free: "select_existing (sqlite3 e) did dt tm db = None" and
      eq: "snd (book_appointment flt e f db) = db\<lparr>appointments := appointments db @
        [\<lparr>appointment_id = next_id (map appointment_id (appointments db)),
          ap_patient_id = p, ap_doctor_id = did,
          appointment_date = numeric_affinity (sqlite3 e) dt,
          appointment_time = numeric_affinity (sqlite3 e) tm,
          status = Some ''Booked'', reason = bf_reason f,
          ap_created_at = current_timestamp e, ap_updated_at = current_timestamp e\<rparr>]\<rparr>"
      by blast
    from booked_keeps_slots [OF ndb ids sts free] show ?thesis
      unfolding Book handle.simps eq by blast
  qed
next
  case (Cancel flt e aid)
  have "keeps_slots aid (Some ''Cancelled'') db" by (simp add: keeps_slots_def)
  moreover have "status_check (Some ''Cancelled'')" by (simp add: status_check_def)
  ultimately have "no_double_booking (db\<lparr>appointments :=
            map (\<lambda>b. if appointment_id b = aid
                     then b\<lparr>status := Some ''Cancelled'', ap_updated_at := current_timestamp e\<rparr>
                     else b) (appointments db)\<rparr>)
     \<and> appointment_ids_unique (db\<lparr>appointments :=
            map (\<lambda>b. if appointment_id b = aid
                     then b\<lparr>status := Some ''Cancelled'', ap_updated_at := current_timestamp e\<rparr>
                     else b) (appointments db)\<rparr>)
     \<and> statuses_set (db\<lparr>appointments :=
            map (\<lambda>b. if appointment_id b = aid
                     then b\<lparr>status := Some ''Cancelled'', ap_updated_at := current_timestamp e\<rparr>
                     else b) (appointments db)\<rparr>)"
    by (intro status_update_keeps_slots [OF ndb ids sts])
  with cancel_appointment_effect [of flt e aid db] ndb ids sts
  show ?thesis unfolding Cancel handle.simps by (elim disjE) simp_all
next
  case (DoctorUpdate flt e aid f)
  with adm have keeps: "keeps_slots aid (tf_status f) db" by simp
  show ?thesis
  proof (cases "fst (doctor_update_appointment flt e aid f db) = Success")
    case False
    with doctor_update_cases [of flt e aid f db]
    have "snd (doctor_update_appointment flt e aid f db) = db" by fastforce
    with ndb ids sts show ?thesis unfolding DoctorUpdate handle.simps by simp
  next
    case True
    then have "status_check (tf_status f)"
      if "a \<in> set (appointments db)" "appointment_id a = aid" for a
      using that by (rule doctor_update_checked)
    then have "no_double_booking (db\<lparr>appointments :=
            map (\<lambda>b. if appointment_id b = aid
                     then b\<lparr>status := tf_status f, ap_updated_at := current_timestamp e\<rparr>
                     else b) (appointments db)\<rparr>)
     \<and> appointment_ids_unique (db\<lparr>appointments :=
            map (\<lambda>b. if appointment_id b = aid
                     then b\<lparr>status := tf_status f, ap_updated_at := current_timestamp e\<rparr>
                     else b) (appointments db)\<rparr>)
     \<and> statuses_set (db\<lparr>appointments :=
            map (\<lambda>b. if appointment_id b = aid
                     then b\<lparr>status := tf_status f, ap_updated_at := current_timestamp e\<rparr>
                     else b) (appointments db)\<rparr>)"
      by (intro status_update_keeps_slots [OF ndb ids sts keeps])
    with True doctor_update_cases [of flt e aid f db]
    show ?thesis unfolding DoctorUpdate handle.simps
      by (elim disjE conjE) (simp_all add: treatments_irrelevant)
  qed
next
  case (AdminUpdate flt e aid st)
  with adm have keeps: "keeps_slots aid st db" by simp
  show ?thesis
  proof (cases "snd (admin_update_appointment flt e aid st db) = db")
    case True
    with ndb ids sts show ?thesis unfolding AdminUpdate handle.simps by simp
  next
    case False
    then have "status_check st"
      if "a \<in> set (appointments db)" "appointment_id a = aid" for a
      using that by (rule admin_update_checked)
    then have "no_double_booking (db\<lparr>appointments :=
            map (\<lambda>b. if appointment_id b = aid
                     then b\<lparr>status := st, ap_updated_at := current_timestamp e\<rparr>
                     else b) (appointments db)\<rparr>)
     \<and> appointment_ids_unique (db\<lparr>appointments :=
            map (\<lambda>b. if appointment_id b = aid
                     then b\<lparr>status := st, ap_updated_at := current_timestamp e\<rparr>
                     else b) (appointments db)\<rparr>)
     \<and> statuses_set (db\<lparr>appointments :=
            map (\<lambda>b. if appointment_id b = aid
                     then b\<lparr>status := st, ap_updated_at := current_timestamp e\<rparr>
                     else b) (appointments db)\<rparr>)"
      by (intro status_update_keeps_slots [OF ndb ids sts keeps])
    with False admin_update_effect [of flt e aid st db]
    show ?thesis unfolding AdminUpdate handle.simps by (elim disjE) simp_all
  qed
next
  case (DeclareAvailability flt e f)
  from availability_effect [of flt e f db]
  have "appointments (snd (availability flt e f db)) = appointments db"
    by (metis database.select_convs(4) database.surjective database.update_convs(3))
  with ndb ids sts show ?thesis
    unfolding DeclareAvailability handle.simps
    by (simp add: no_double_booking_def appointment_ids_unique_def statuses_set_def)
qed

lemma run_keeps_slots:
  assumes "no_double_booking db" "appointment_ids_unique db" "statuses_set db"
    and "admissible_run rs db"
  shows "no_double_booking (serial_run rs db) \<and> appointment_ids_unique (serial_run rs db)
     \<and> statuses_set (serial_run rs db)"
  using assms
proof (induction rs arbitrary: db)
  case Nil
  then show ?case by simp
next
  case (Cons r rs)
  from Cons.prems have "admissible r db" and rest: "admissible_run rs (snd (handle r db))"
    by simp_all
  from handle_keeps_slots [OF Cons.prems(1-3) this(1)] rest
  have "no_double_booking (serial_run rs (snd (handle r db)))
     \<and> appointment_ids_unique (serial_run rs (snd (handle r db)))
     \<and> statuses_set (serial_run rs (snd (handle r db)))"
    by (intro Cons.IH) simp_all
  then show ?case by simp
qed

section \<open>The claims\<close>

lemmas sql_defs = select_patient_def select_doctor_def select_existing_def select_available_def
  insert_appointment_def select_appointment_of_def update_status_def update_cancelled_def
  select_treatment_def select_appointment_def update_treatment_def insert_treatment_def
  select_window_def update_window_def insert_window_def next_id_def status_check_def
  status_not_in_def

lemmas handler_defs = book_appointment_def cancel_appointment_def doctor_update_appointment_def
  admin_update_appointment_def

lemmas clinic_defs = clinic_def visit_def busy_clinic_def patient_env_def doctor_env_def
  admin_env_def slot_request_def findings_def logged_in_def booking_def blacklisted_clinic_def
  clock_sqlite_def hhmm_def

subsection \<open>C1: no two appointments hold the same slot\<close>

text \<open>
  C1, as stated, fails. The claim says that in every state reachable by booking,
  cancellation, the doctor's status update and the admin's status override, no two
  appointments whose status is outside Cancelled and Rescheduled share a (doctor, date,
  time) triple. On the clinic, which has no appointment yet, the requests of \<open>revival\<close>,
  served one after another, end with appointments 1 and 2 both Booked for doctor 1 on
  2025-06-10 at 09:30: the admin override writes any status on any appointment and never
  looks at the slot.
\<close>

theorem revival_double_booking:
  "appointments clinic = []
   \<and> map (\<lambda>a. (appointment_id a, slot a, status a))
       (appointments (serial_run revival clinic)) =
       [(1, (1, SqlText ''2025-06-10'', SqlText ''09:30''), Some ''Booked''),
        (2, (1, SqlText ''2025-06-10'', SqlText ''09:30''), Some ''Booked'')]
   \<and> \<not> no_double_booking (serial_run revival clinic)"
  by (simp add: revival_def handler_defs db_defs sql_defs clinic_defs slot_def
      no_double_booking_def holds_def)

text \<open>A second way to the same end needs no revival. The doctor's form may come without
  its status field; the UPDATE then writes NULL, which the CHECK constraint admits, and the
  double-booking query, whose \<^verbatim>\<open>NOT IN\<close> is NULL on such a row, no longer sees the
  appointment: the slot of appointment 1 is booked again.\<close>

lemma unset_status_double_booking:
  "map (\<lambda>a. (appointment_id a, slot a, status a))
       (appointments (serial_run unset_status clinic)) =
       [(1, (1, SqlText ''2025-06-10'', SqlText ''09:30''), None),
        (2, (1, SqlText ''2025-06-10'', SqlText ''09:30''), Some ''Booked'')]
   \<and> \<not> no_double_booking (serial_run unset_status clinic)"
  by (simp add: unset_status_def handler_defs db_defs sql_defs clinic_defs slot_def
      no_double_booking_def holds_def)

text \<open>Nor does the schema protect the slot: no constraint covers (doctor, date, time), and
  the INSERT of a booking succeeds on a slot that is held. The invariant rests on the
  SELECT that precedes the INSERT in the same request. Two requests that are served at the
  same time can both run the SELECT before either INSERT; the specification (section 5)
  records this race as a defect of the source, and such interleavings are no runs of
  \<open>serial_run\<close>.\<close>

lemma insert_appointment_unguarded:
  "\<exists>db'. insert_appointment clock_sqlite 2 1 ''2025-06-10'' ''09:30'' None 100 busy_clinic =
           Inr db'
      \<and> map (\<lambda>a. (slot a, status a)) (appointments db') =
           [((1, SqlText ''2025-06-10'', SqlText ''09:30''), Some ''Booked''),
            ((1, SqlText ''2025-06-10'', SqlText ''09:30''), Some ''Booked'')]
      \<and> \<not> no_double_booking db'"
  by (simp add: sql_defs clinic_defs slot_def no_double_booking_def holds_def)

text \<open>
  C1, amended. Take requests that are served one after another, from a state in which no
  two appointments with a status outside Cancelled and Rescheduled share a (doctor, date,
  time) triple, every appointment has a status and the appointment identifiers are unique
  (a state without appointments is one). Let the requests be bookings (for a doctor
  identifier below \<open>2 ^ 63\<close>), cancellations, availability declarations and status updates of
  the doctor or the admin, on a healthy or a failing store, where every status update on
  an existing appointment posts a status and does not give a status outside Cancelled and
  Rescheduled to an appointment that had one of these two while another appointment with
  a status outside them is on the same triple. Then in the state they end in no two
  appointments with a status outside Cancelled and Rescheduled share a triple. The triple
  is the stored one. Nothing is said about requests that are served at the same time.
\<close>

theorem serial_run_no_double_booking:
  assumes "no_double_booking db" "appointment_ids_unique db" "statuses_set db"
    and "admissible_run rs db"
  shows "no_double_booking (serial_run rs db)"
  using run_keeps_slots [OF assms] by blast

text \<open>C1, witness: the requests of \<open>morning\<close> on the clinic are admissible, the revival of
  appointment 1 while its slot is free included, and end with appointment 1 Cancelled and
  appointment 2 Booked on the same slot.\<close>

theorem serial_run_no_double_booking_witness:
  "no_double_booking clinic \<and> appointment_ids_unique clinic \<and> statuses_set clinic
   \<and> admissible_run morning clinic
   \<and> no_double_booking (serial_run morning clinic)
   \<and> map (\<lambda>a. (appointment_id a, status a)) (appointments (serial_run morning clinic)) =
       [(1, Some ''Cancelled''), (2, Some ''Booked'')]"
proof -
  have start: "no_double_booking clinic" "appointment_ids_unique clinic" "statuses_set clinic"
    by (simp_all add: no_double_booking_def appointment_ids_unique_def statuses_set_def
        clinic_def)
  have steps: "admissible_run morning clinic"
    by (simp add: morning_def handler_defs db_defs sql_defs clinic_defs keeps_slots_def
        holds_def slot_def)
  have final: "map (\<lambda>a. (appointment_id a, status a))
       (appointments (serial_run morning clinic)) =
       [(1, Some ''Cancelled''), (2, Some ''Booked'')]"
    by (simp add: morning_def handler_defs db_defs sql_defs clinic_defs)
  from serial_run_no_double_booking [OF start steps] start steps final
  show ?thesis by blast
qed

subsection \<open>C2: a booking is refused exactly when the slot is held\<close>

lemma book_appointment_success:
  assumes "book_appointment flt e (booking did dt tm rsn) db = (Success, db1)"
  shows "\<exists>pid. select_existing (sqlite3 e) did dt tm db = None
      \<and> select_available (sqlite3 e) did dt tm db \<noteq> None
      \<and> \<not> dt < today e
      \<and> db1 = db\<lparr>appointments := appointments db @
        [\<lparr>appointment_id = next_id (map appointment_id (appointments db)),
          ap_patient_id = pid, ap_doctor_id = did,
          appointment_date = numeric_affinity (sqlite3 e) dt,
          appointment_time = numeric_affinity (sqlite3 e) tm,
          status = Some ''Booked'', reason = rsn,
          ap_created_at = current_timestamp e, ap_updated_at = current_timestamp e\<rparr>]\<rparr>"
  using assms
  by (auto simp add: book_appointment_def booking_def db_defs insert_appointment_def
      split: option.splits if_splits)

lemma cancel_appointment_success:
  assumes "cancel_appointment flt e aid db = (Success, db2)"
  shows "db2 = db\<lparr>appointments :=
      map (\<lambda>b. if appointment_id b = aid
               then b\<lparr>status := Some ''Cancelled'', ap_updated_at := current_timestamp e\<rparr>
               else b) (appointments db)\<rparr>"
  using assms
  by (auto simp add: cancel_appointment_def db_defs update_cancelled_def update_status_def
      status_check_def split: option.splits if_splits sqlval.splits)

lemma status_not_in_checked:
  "status_check st \<Longrightarrow> status_not_in st = (st = Some ''Booked'' \<or> st = Some ''Completed'')"
  by (auto simp: status_check_def status_not_in_def split: option.splits)

lemma rebook_after_cancel:
  assumes u: "current_user e = Some u" "role u = ''patient''"
    and p: "select_patient (user_id u) db = Some p"
    and f: "dt \<noteq> []" "tm \<noteq> []" "\<not> dt < today e"
    and l: "sqlite3 e0 = sqlite3 e"
    and b: "book_appointment flt0 e0 (booking did dt tm rsn0) db = (Success, db1)"
    and c: "cancel_appointment flt1 e1 (appointment_id (last (appointments db1))) db1 =
              (Success, db2)"
  shows "fst (book_appointment None e (booking did dt tm rsn) db2) = Success"
proof -
  from book_appointment_success [OF b] l obtain pid where
    free: "select_existing (sqlite3 e) did dt tm db = None" and
    av: "select_available (sqlite3 e) did dt tm db \<noteq> None" and
    db1: "db1 = db\<lparr>appointments := appointments db @
        [\<lparr>appointment_id = next_id (map appointment_id (appointments db)),
          ap_patient_id = pid, ap_doctor_id = did,
          appointment_date = numeric_affinity (sqlite3 e) dt,
          appointment_time = numeric_affinity (sqlite3 e) tm,
          status = Some ''Booked'', reason = rsn0,
          ap_created_at = current_timestamp e0, ap_updated_at = current_timestamp e0\<rparr>]\<rparr>"
    by auto
  note db2 = cancel_appointment_success [OF c]
  have "select_existing (sqlite3 e) did dt tm db2 = None"
    using free unfolding select_existing_None
    by (subst db2) (auto simp: db1 slot_def status_not_in_def)
  moreover have "select_available (sqlite3 e) did dt tm db2 =
      select_available (sqlite3 e) did dt tm db"
    by (subst db2) (simp add: db1 select_available_def)
  moreover have "select_patient (user_id u) db2 = Some p"
    using p by (subst db2) (simp add: db1 select_patient_def)
  ultimately show ?thesis
    using u f av by (simp add: book_appointment_flat)
qed

text \<open>Two posted times that SQLite stores as one value are one slot. In SQLite \<^verbatim>\<open>'0930'\<close> and
  \<^verbatim>\<open>'930'\<close> are both the number 930: after a booking at the first, a request at the second
  is refused as a conflict.\<close>

lemma stored_value_conflict:
  assumes "current_user e = Some u" "role u = ''patient''"
    and "select_patient (user_id u) db1 = Some p"
    and "dt' \<noteq> []" "tm' \<noteq> []" "\<not> dt' < today e"
    and "book_appointment flt0 e0 (booking did dt tm rsn0) db = (Success, db1)"
    and "numeric_affinity (sqlite3 e) dt' = numeric_affinity (sqlite3 e0) dt"
    and "numeric_affinity (sqlite3 e) tm' = numeric_affinity (sqlite3 e0) tm"
  shows "book_appointment None e (booking did dt' tm' rsn) db1 = (Rejected SlotTaken, db1)"
proof -
  from book_appointment_success [OF assms(7)] obtain pid where
    db1: "db1 = db\<lparr>appointments := appointments db @
        [\<lparr>appointment_id = next_id (map appointment_id (appointments db)),
          ap_patient_id = pid, ap_doctor_id = did,
          appointment_date = numeric_affinity (sqlite3 e0) dt,
          appointment_time = numeric_affinity (sqlite3 e0) tm,
          status = Some ''Booked'', reason = rsn0,
          ap_created_at = current_timestamp e0, ap_updated_at = current_timestamp e0\<rparr>]\<rparr>"
    by auto
  have "select_existing (sqlite3 e) did dt' tm' db1 \<noteq> None"
    unfolding select_existing_None
    by (subst db1) (simp add: slot_def status_not_in_def assms(8,9))
  with assms(6) show ?thesis
    by (simp add: book_appointment_flat [OF assms(1-5)])
qed

text \<open>
  C2, as stated, fails. The claim says that every booking request at (clinician, date,
  time) is rejected with a slot conflict if and only if some appointment at that triple
  is Booked or Completed. The date check comes first in \<^verbatim>\<open>book_appointment\<close>: on 2025-06-11
  a request for doctor 1 on 2025-06-10 at 09:30, a slot a Booked appointment holds, is
  refused as a past booking and not as a conflict.
\<close>

theorem past_request_not_conflict:
  "map (\<lambda>a. (slot a, status a)) (appointments busy_clinic) =
     [((1, SqlText ''2025-06-10'', SqlText ''09:30''), Some ''Booked'')]
   \<and> book_appointment None (patient_env 12 ''2025-06-11'') slot_request busy_clinic =
       (Rejected PastBooking, busy_clinic)"
  by (simp add: handler_defs db_defs sql_defs clinic_defs slot_def)

text \<open>
  C2, amended. For every booking request at (clinician, date, time) whose date is not
  before the current date (a complete form for a doctor identifier below \<open>2 ^ 63\<close>, posted
  by a patient with a profile, on a healthy store whose statuses satisfy the CHECK
  constraint), the request is rejected with a slot conflict if and only if some
  appointment at that triple is Booked or Completed, the triple of an appointment being
  the stored one and the triple of the request what SQLite would store for the posted
  date and time; and when a booking of the triple has succeeded and that appointment is
  then cancelled, a booking of the same triple succeeds.
\<close>

theorem booking_conflict_iff_slot_held:
  assumes "current_user e = Some u" "role u = ''patient''"
    and "select_patient (user_id u) db = Some p"
    and "dt \<noteq> []" "tm \<noteq> []" "\<not> dt < today e" "did < 2 ^ 63"
    and "statuses_checked db"
  shows "(fst (book_appointment None e (booking did dt tm rsn) db) = Rejected SlotTaken) =
           (\<exists>a \<in> set (appointments db).
              slot a = (did, numeric_affinity (sqlite3 e) dt, numeric_affinity (sqlite3 e) tm)
              \<and> (status a = Some ''Booked'' \<or> status a = Some ''Completed''))
         \<and> (\<forall>flt0 e0 rsn0 db1 flt1 e1 db2.
              sqlite3 e0 = sqlite3 e
              \<and> book_appointment flt0 e0 (booking did dt tm rsn0) db = (Success, db1)
              \<and> cancel_appointment flt1 e1 (appointment_id (last (appointments db1))) db1 =
                  (Success, db2)
              \<longrightarrow> fst (book_appointment None e (booking did dt tm rsn) db2) = Success)"
proof (intro conjI allI impI)
  let ?k = "(did, numeric_affinity (sqlite3 e) dt, numeric_affinity (sqlite3 e) tm)"
  have "(\<exists>a \<in> set (appointments db). slot a = ?k \<and> status_not_in (status a)) =
        (\<exists>a \<in> set (appointments db). slot a = ?k
              \<and> (status a = Some ''Booked'' \<or> status a = Some ''Completed''))"
    using assms(8) by (auto simp: statuses_checked_def status_not_in_checked)
  then show "(fst (book_appointment None e (booking did dt tm rsn) db) = Rejected SlotTaken) =
           (\<exists>a \<in> set (appointments db). slot a = ?k
              \<and> (status a = Some ''Booked'' \<or> status a = Some ''Completed''))"
    using assms(1-6) select_existing_None [of "sqlite3 e" did dt tm db]
    by (simp add: book_appointment_flat)
next
  fix flt0 e0 rsn0 db1 flt1 e1 db2
  assume "sqlite3 e0 = sqlite3 e
      \<and> book_appointment flt0 e0 (booking did dt tm rsn0) db = (Success, db1)
      \<and> cancel_appointment flt1 e1 (appointment_id (last (appointments db1))) db1 =
          (Success, db2)"
  with assms(1-6) show "fst (book_appointment None e (booking did dt tm rsn) db2) = Success"
    by (blast intro: rebook_after_cancel)
qed

text \<open>C2, witness: patient 2 is refused the slot that appointment 1 holds in the busy
  clinic; on the clinic, patient 1 books the slot and cancels, and patient 2 then gets it.\<close>

theorem booking_conflict_iff_slot_held_witness:
  "fst (book_appointment None (patient_env 12 ''2025-06-01'') slot_request busy_clinic) =
     Rejected SlotTaken
   \<and> fst (book_appointment None (patient_env 12 ''2025-06-01'') slot_request
       (snd (cancel_appointment None (patient_env 11 ''2025-06-01'') 1
         (snd (book_appointment None (patient_env 11 ''2025-06-01'') slot_request clinic))))) =
     Success"
proof -
  let ?e = "patient_env 12 ''2025-06-01''"
  let ?u = "\<lparr>user_id = 12, role = ''patient''\<rparr>"
  let ?p = "\<lparr>patient_id = 2, patient_user_id = 12, patient_status = ''active''\<rparr>"
  have e: "current_user ?e = Some ?u" "role ?u = ''patient''"
    "''2025-06-10'' \<noteq> []" "''09:30'' \<noteq> []" "\<not> ''2025-06-10'' < today ?e"
    "(1::nat) < 2 ^ 63"
    by (simp_all add: clinic_defs)
  have l: "numeric_affinity (sqlite3 ?e) = SqlText"
    "sqlite3 (patient_env 11 ''2025-06-01'') = sqlite3 ?e"
    by (simp_all add: clinic_defs)
  have busy: "select_patient (user_id ?u) busy_clinic = Some ?p" "statuses_checked busy_clinic"
    by (simp_all add: clinic_defs sql_defs statuses_checked_def)
  have held: "\<exists>a \<in> set (appointments busy_clinic).
      slot a = (1, SqlText ''2025-06-10'', SqlText ''09:30'')
      \<and> (status a = Some ''Booked'' \<or> status a = Some ''Completed'')"
    by (simp add: clinic_defs slot_def)
  have empty: "select_patient (user_id ?u) clinic = Some ?p" "statuses_checked clinic"
    by (simp_all add: clinic_defs sql_defs statuses_checked_def)
  let ?db1 = "snd (book_appointment None (patient_env 11 ''2025-06-01'') slot_request clinic)"
  let ?db2 = "snd (cancel_appointment None (patient_env 11 ''2025-06-01'') 1 ?db1)"
  have b: "book_appointment None (patient_env 11 ''2025-06-01'')
      (booking 1 ''2025-06-10'' ''09:30'' None) clinic = (Success, ?db1)"
    by (simp add: handler_defs db_defs sql_defs clinic_defs)
  have c: "cancel_appointment None (patient_env 11 ''2025-06-01'')
      (appointment_id (last (appointments ?db1))) ?db1 = (Success, ?db2)"
    by (simp add: handler_defs db_defs sql_defs clinic_defs)
  from booking_conflict_iff_slot_held [OF e(1,2) busy(1) e(3,4,5,6) busy(2), of None] held
  have first: "fst (book_appointment None ?e slot_request busy_clinic) = Rejected SlotTaken"
    by (simp add: slot_request_def l(1))
  from booking_conflict_iff_slot_held [OF e(1,2) empty(1) e(3,4,5,6) empty(2), of None] l(2) b c
  have "fst (book_appointment None ?e (booking 1 ''2025-06-10'' ''09:30'' None) ?db2) = Success"
    by blast
  with first show ?thesis by (simp add: slot_request_def)
qed

subsection \<open>C3: the availability test\<close>

lemma sql_between_covers:
  "sql_between (sql_time L (SqlText tm)) (sql_time L (start_time w)) (sql_time L (end_time w)) =
     covers L w tm"
  by (cases "sql_time L (SqlText tm)"; cases "sql_time L (start_time w)";
      cases "sql_time L (end_time w)") (simp_all add: covers_def)

lemma select_available_None:
  "(select_available L did dt tm db = None) =
     (\<not> (\<exists>w \<in> set (doctor_availability db). av_doctor_id w = did
            \<and> av_date w = numeric_affinity L dt \<and> is_available w \<and> covers L w tm))"
  by (auto simp: select_available_def find_None_iff sql_between_covers)

text \<open>
  C3. For every booking request that passes the past-date and conflict checks (a complete
  form for a doctor identifier below \<open>2 ^ 63\<close>, posted by a patient with a profile, on a
  healthy store), the booking succeeds if and only if some availability window of that
  clinician and date has the open flag set and start \<open>\<le>\<close> time \<open>\<le>\<close> end, and is refused as
  unavailable otherwise. The three are compared as the query compares them, as the times
  of day that \<^verbatim>\<open>time(...)\<close> reads from the posted time and from the stored start and end; the
  date of a window is the stored one. The boundaries are inclusive: a booking at a time of
  day equal to the end of such an open window (one whose start is not after its end) is
  accepted, and a booking at a time of day after the end of every open window of that
  clinician and date is refused as unavailable.
\<close>

theorem availability_test_inclusive:
  assumes "current_user e = Some u" "role u = ''patient''"
    and "select_patient (user_id u) db = Some p"
    and "dt \<noteq> []" "tm \<noteq> []" "\<not> dt < today e" "did < 2 ^ 63"
    and "\<not> (\<exists>a \<in> set (appointments db).
              slot a = (did, numeric_affinity (sqlite3 e) dt, numeric_affinity (sqlite3 e) tm)
              \<and> status_not_in (status a))"
  shows "(fst (book_appointment None e (booking did dt tm rsn) db) = Success) =
           (\<exists>w \<in> set (doctor_availability db). av_doctor_id w = did
              \<and> av_date w = numeric_affinity (sqlite3 e) dt \<and> is_available w
              \<and> (\<exists>x y z. sql_time (sqlite3 e) (SqlText tm) = Some x
                    \<and> sql_time (sqlite3 e) (start_time w) = Some y
                    \<and> sql_time (sqlite3 e) (end_time w) = Some z \<and> y \<le> x \<and> x \<le> z))
         \<and> (fst (book_appointment None e (booking did dt tm rsn) db) \<noteq> Success) =
             (book_appointment None e (booking did dt tm rsn) db = (Rejected NotAvailable, db))
         \<and> (\<forall>w \<in> set (doctor_availability db).
              av_doctor_id w = did \<and> av_date w = numeric_affinity (sqlite3 e) dt
              \<and> is_available w
              \<and> (\<exists>y z. sql_time (sqlite3 e) (start_time w) = Some y
                    \<and> sql_time (sqlite3 e) (end_time w) = Some z \<and> y \<le> z
                    \<and> sql_time (sqlite3 e) (SqlText tm) = Some z)
              \<longrightarrow> fst (book_appointment None e (booking did dt tm rsn) db) = Success)
         \<and> ((\<forall>w \<in> set (doctor_availability db).
               av_doctor_id w = did \<and> av_date w = numeric_affinity (sqlite3 e) dt
               \<and> is_available w
               \<longrightarrow> (\<exists>x z. sql_time (sqlite3 e) (SqlText tm) = Some x
                      \<and> sql_time (sqlite3 e) (end_time w) = Some z \<and> z < x))
              \<longrightarrow> book_appointment None e (booking did dt tm rsn) db =
                    (Rejected NotAvailable, db))"
proof -
  let ?L = "sqlite3 e"
  let ?book = "book_appointment None e (booking did dt tm rsn) db"
  let ?open = "\<lambda>w. av_doctor_id w = did \<and> av_date w = numeric_affinity ?L dt \<and> is_available w"
  from assms(8) have free: "select_existing ?L did dt tm db = None"
    by (simp add: select_existing_None)
  note flat = book_appointment_flat [OF assms(1-5), of did rsn]
  have iff: "(fst ?book = Success) =
      (\<exists>w \<in> set (doctor_availability db). ?open w \<and> covers ?L w tm)"
    using assms(6) free select_available_None [of ?L did dt tm db] by (auto simp: flat)
  have other: "(fst ?book \<noteq> Success) = (?book = (Rejected NotAvailable, db))"
    using assms(6) free by (simp add: flat)
  have boundary: "fst ?book = Success"
    if "w \<in> set (doctor_availability db)" "?open w"
      "\<exists>y z. sql_time ?L (start_time w) = Some y \<and> sql_time ?L (end_time w) = Some z \<and> y \<le> z
         \<and> sql_time ?L (SqlText tm) = Some z" for w
  proof -
    from that(3) have "covers ?L w tm" by (auto simp: covers_def)
    with that(1,2) iff show ?thesis by blast
  qed
  have late: "?book = (Rejected NotAvailable, db)"
    if "\<forall>w \<in> set (doctor_availability db). ?open w
          \<longrightarrow> (\<exists>x z. sql_time ?L (SqlText tm) = Some x \<and> sql_time ?L (end_time w) = Some z
                 \<and> z < x)"
  proof -
    have "\<not> covers ?L w tm" if w: "w \<in> set (doctor_availability db)" "?open w" for w
    proof
      assume "covers ?L w tm"
      then obtain x z where c: "sql_time ?L (SqlText tm) = Some x"
        "sql_time ?L (end_time w) = Some z" "x \<le> z"
        by (auto simp: covers_def)
      from \<open>\<forall>w \<in> set (doctor_availability db). ?open w
          \<longrightarrow> (\<exists>x z. sql_time ?L (SqlText tm) = Some x \<and> sql_time ?L (end_time w) = Some z
                 \<and> z < x)\<close> w
      obtain x' z' where "sql_time ?L (SqlText tm) = Some x'"
        "sql_time ?L (end_time w) = Some z'" "z' < x'"
        by blast
      with c show False by simp
    qed
    then have "fst ?book \<noteq> Success" unfolding iff by blast
    with other show ?thesis by simp
  qed
  from iff have iff': "(fst ?book = Success) =
           (\<exists>w \<in> set (doctor_availability db). av_doctor_id w = did
              \<and> av_date w = numeric_affinity ?L dt \<and> is_available w
              \<and> (\<exists>x y z. sql_time ?L (SqlText tm) = Some x
                    \<and> sql_time ?L (start_time w) = Some y
                    \<and> sql_time ?L (end_time w) = Some z \<and> y \<le> x \<and> x \<le> z))"
    by (simp add: covers_def)
  from iff' other boundary late show ?thesis by blast
qed

text \<open>C3, witness: on the clinic, whose window for doctor 1 is 09:00 to 12:00, a booking
  at 12:00 is accepted and a booking at 12:01 is refused as unavailable.\<close>

theorem availability_test_inclusive_witness:
  "fst (book_appointment None (patient_env 11 ''2025-06-01'')
         (booking 1 ''2025-06-10'' ''12:00'' None) clinic) = Success
   \<and> book_appointment None (patient_env 11 ''2025-06-01'')
         (booking 1 ''2025-06-10'' ''12:01'' None) clinic = (Rejected NotAvailable, clinic)"
proof -
  let ?e = "patient_env 11 ''2025-06-01''"
  let ?u = "\<lparr>user_id = 11, role = ''patient''\<rparr>"
  let ?p = "\<lparr>patient_id = 1, patient_user_id = 11, patient_status = ''active''\<rparr>"
  let ?w = "\<lparr>availability_id = 1, av_doctor_id = 1, av_date = SqlText ''2025-06-10'',
          start_time = SqlText ''09:00'', end_time = SqlText ''12:00'', is_available = True\<rparr>"
  have e: "current_user ?e = Some ?u" "role ?u = ''patient''"
    "select_patient (user_id ?u) clinic = Some ?p"
    "''2025-06-10'' \<noteq> []" "\<not> ''2025-06-10'' < today ?e" "(1::nat) < 2 ^ 63"
    by (simp_all add: clinic_defs sql_defs)
  have t: "''12:00'' \<noteq> []" "''12:01'' \<noteq> []" by simp_all
  have free: "\<not> (\<exists>a \<in> set (appointments clinic).
      slot a = (1, numeric_affinity (sqlite3 ?e) ''2025-06-10'', numeric_affinity (sqlite3 ?e) tm)
      \<and> status_not_in (status a))"
    for tm by (simp add: clinic_def)
  have ws: "doctor_availability clinic = [?w]" by (simp add: clinic_def)
  have l: "numeric_affinity (sqlite3 ?e) ''2025-06-10'' = SqlText ''2025-06-10''"
    "sql_time (sqlite3 ?e) (SqlText ''09:00'') = Some ''09:00:00''"
    "sql_time (sqlite3 ?e) (SqlText ''12:00'') = Some ''12:00:00''"
    "sql_time (sqlite3 ?e) (SqlText ''12:01'') = Some ''12:01:00''"
    by (simp_all add: clinic_defs)
  from availability_test_inclusive [OF e(1,2,3,4) t(1) e(5,6) free, of None]
  have "av_doctor_id ?w = 1 \<and> av_date ?w = numeric_affinity (sqlite3 ?e) ''2025-06-10''
          \<and> is_available ?w
          \<and> (\<exists>y z. sql_time (sqlite3 ?e) (start_time ?w) = Some y
                \<and> sql_time (sqlite3 ?e) (end_time ?w) = Some z \<and> y \<le> z
                \<and> sql_time (sqlite3 ?e) (SqlText ''12:00'') = Some z)
     \<longrightarrow> fst (book_appointment None ?e (booking 1 ''2025-06-10'' ''12:00'' None) clinic) = Success"
    unfolding ws by simp
  then have at_end:
    "fst (book_appointment None ?e (booking 1 ''2025-06-10'' ''12:00'' None) clinic) = Success"
    by (simp add: l)
  from availability_test_inclusive [OF e(1,2,3,4) t(2) e(5,6) free, of None]
  have "(av_doctor_id ?w = 1 \<and> av_date ?w = numeric_affinity (sqlite3 ?e) ''2025-06-10''
           \<and> is_available ?w
           \<longrightarrow> (\<exists>x z. sql_time (sqlite3 ?e) (SqlText ''12:01'') = Some x
                  \<and> sql_time (sqlite3 ?e) (end_time ?w) = Some z \<and> z < x))
     \<longrightarrow> book_appointment None ?e (booking 1 ''2025-06-10'' ''12:01'' None) clinic =
           (Rejected NotAvailable, clinic)"
    unfolding ws by simp
  then have "book_appointment None ?e (booking 1 ''2025-06-10'' ''12:01'' None) clinic =
           (Rejected NotAvailable, clinic)"
    by (simp add: l)
  with at_end show ?thesis by simp
qed

subsection \<open>C4: no booking in the past\<close>

text \<open>
  C4. Every booking request (a complete form, posted by a patient with a profile) whose
  date is strictly before the current date is refused as a past booking on a healthy
  store, whatever the windows and the appointments of the store are; and on any store,
  healthy or failing, the request leaves the stored state as it was.
\<close>

theorem past_booking_rejected:
  assumes "current_user e = Some u" "role u = ''patient''"
    and "select_patient (user_id u) db = Some p"
    and "dt \<noteq> []" "tm \<noteq> []" "dt < today e"
  shows "book_appointment None e (booking did dt tm rsn) db = (Rejected PastBooking, db)
         \<and> (\<forall>flt. snd (book_appointment flt e (booking did dt tm rsn) db) = db)"
proof (intro conjI allI)
  show "book_appointment None e (booking did dt tm rsn) db = (Rejected PastBooking, db)"
    using assms by (simp add: book_appointment_flat)
next
  fix flt
  show "snd (book_appointment flt e (booking did dt tm rsn) db) = db"
    using assms(1,2,4,5,6)
    by (auto simp: book_appointment_def booking_def db_defs split: option.splits)
qed

text \<open>C4, witness: on 2025-06-11 the request for 2025-06-10 at 09:30 is refused as a past
  booking although the slot is free and inside an open window; with a storage failure at
  the first statement the store is unchanged as well.\<close>

theorem past_booking_rejected_witness:
  "book_appointment None (patient_env 12 ''2025-06-11'') slot_request clinic =
     (Rejected PastBooking, clinic)
   \<and> snd (book_appointment (Some 0) (patient_env 12 ''2025-06-11'') slot_request clinic) = clinic"
proof -
  let ?e = "patient_env 12 ''2025-06-11''"
  let ?u = "\<lparr>user_id = 12, role = ''patient''\<rparr>"
  let ?p = "\<lparr>patient_id = 2, patient_user_id = 12, patient_status = ''active''\<rparr>"
  have e: "current_user ?e = Some ?u" "role ?u = ''patient''"
    "select_patient (user_id ?u) clinic = Some ?p"
    "''2025-06-10'' \<noteq> []" "''09:30'' \<noteq> []" "''2025-06-10'' < today ?e"
    by (simp_all add: clinic_defs sql_defs)
  from past_booking_rejected [OF e, of 1 None] show ?thesis
    by (simp add: slot_request_def)
qed

subsection \<open>C5: bookings of blacklisted parties\<close>

text \<open>
  C5 says that a booking is rejected when the clinician or the requesting patient is
  blacklisted. The POST branch of \<^verbatim>\<open>book_appointment\<close> reads neither status column, although
  \<^verbatim>\<open>login\<close> refuses blacklisted users and the booking page lists active doctors only: with
  patient 1 and doctor 1 blacklisted, the request of patient 1 (logged in before the
  blacklisting) for doctor 1 succeeds and the appointment is stored as Booked, and so does
  the request of the active patient 2 for the blacklisted doctor 1.
\<close>

theorem blacklisted_booking_accepted:
  "map patient_status (patients blacklisted_clinic) = [''blacklisted'', ''active'']
   \<and> map doctor_status (doctors blacklisted_clinic) = [''blacklisted'', ''active'']
   \<and> fst (book_appointment None (patient_env 11 ''2025-06-01'') slot_request
       blacklisted_clinic) = Success
   \<and> map (\<lambda>a. (ap_patient_id a, ap_doctor_id a, status a))
       (appointments (snd (book_appointment None (patient_env 11 ''2025-06-01'') slot_request
          blacklisted_clinic))) = [(1, 1, Some ''Booked'')]
   \<and> fst (book_appointment None (patient_env 12 ''2025-06-01'') slot_request
       blacklisted_clinic) = Success
   \<and> map (\<lambda>a. (ap_patient_id a, ap_doctor_id a, status a))
       (appointments (snd (book_appointment None (patient_env 12 ''2025-06-01'') slot_request
          blacklisted_clinic))) = [(2, 1, Some ''Booked'')]"
  by (simp add: handler_defs db_defs sql_defs clinic_defs)

subsection \<open>C6: the clinician's status update is atomic\<close>

lemma treatments_of_empty:
  "(treatments_of aid db = []) = (aid \<notin> tr_appointment_id ` set (treatments db))"
  by (auto simp: treatments_of_def filter_empty_conv)

lemma doctor_update_status_written:
  assumes "fst (doctor_update_appointment flt e aid f db) = Success"
  shows "update_status aid (tf_status f) (current_timestamp e) db =
     Inr (db\<lparr>appointments :=
        map (\<lambda>b. if appointment_id b = aid
                 then b\<lparr>status := tf_status f, ap_updated_at := current_timestamp e\<rparr>
                 else b) (appointments db)\<rparr>)"
  using assms
  by (auto simp add: doctor_update_appointment_def db_defs update_status_def
      split: option.splits if_splits)

lemma doctor_update_failure:
  assumes "fst (doctor_update_appointment flt e aid f db) \<noteq> Success"
  shows "snd (doctor_update_appointment flt e aid f db) = db"
  using doctor_update_cases [of flt e aid f db] assms by fastforce

lemma doctor_update_written:
  assumes "fst (doctor_update_appointment flt e aid f db) = Success"
  shows "snd (doctor_update_appointment flt e aid f db) =
     db\<lparr>appointments :=
        map (\<lambda>b. if appointment_id b = aid
                 then b\<lparr>status := tf_status f, ap_updated_at := current_timestamp e\<rparr>
                 else b) (appointments db),
       treatments :=
        (if aid \<in> tr_appointment_id ` set (treatments db)
         then map (\<lambda>t. if tr_appointment_id t = aid
                then t\<lparr>diagnosis := tf_diagnosis f, prescription := tf_prescription f,
                       tr_notes := tf_notes f, follow_up_date := tf_follow_up_date f,
                       tr_updated_at := current_timestamp e\<rparr>
                else t) (treatments db)
         else treatments db @
           [\<lparr>treatment_id = next_id (map treatment_id (treatments db)),
             tr_appointment_id = aid, diagnosis = tf_diagnosis f,
             prescription = tf_prescription f, tr_notes = tf_notes f,
             follow_up_date = tf_follow_up_date f,
             tr_created_at = current_timestamp e, tr_updated_at = current_timestamp e\<rparr>])\<rparr>"
proof -
  from doctor_update_cases [of flt e aid f db] assms show ?thesis
    by (elim disjE) simp_all
qed

lemma status_written:
  assumes "a \<in> set (map (\<lambda>b. if appointment_id b = aid
                         then b\<lparr>status := st, ap_updated_at := now\<rparr> else b) as)"
    and "appointment_id a = aid"
  shows "status a = st"
proof -
  from assms(1) obtain b where
    "a = (if appointment_id b = aid then b\<lparr>status := st, ap_updated_at := now\<rparr> else b)"
    unfolding set_map by (rule imageE)
  with assms(2) show ?thesis by (cases "appointment_id b = aid") simp_all
qed

lemma treatment_written:
  "aid \<in> tr_appointment_id ` set ts \<Longrightarrow>
   \<exists>t \<in> set (map (\<lambda>t. if tr_appointment_id t = aid
                then t\<lparr>diagnosis := tf_diagnosis f, prescription := tf_prescription f,
                       tr_notes := tf_notes f, follow_up_date := tf_follow_up_date f,
                       tr_updated_at := now\<rparr>
                else t) ts).
      tr_appointment_id t = aid \<and> holds_form f t"
  by (induction ts) (auto simp: holds_form_def)

lemma doctor_update_visible:
  assumes "fst (doctor_update_appointment flt e aid f db) = Success"
  shows "\<forall>a \<in> set (appointments (snd (doctor_update_appointment flt e aid f db))).
          appointment_id a = aid \<longrightarrow> status a = tf_status f"
    and "\<exists>t \<in> set (treatments (snd (doctor_update_appointment flt e aid f db))).
          tr_appointment_id t = aid \<and> holds_form f t"
proof -
  note r = doctor_update_written [OF assms]
  have ap: "appointments (snd (doctor_update_appointment flt e aid f db)) =
      map (\<lambda>b. if appointment_id b = aid
                 then b\<lparr>status := tf_status f, ap_updated_at := current_timestamp e\<rparr>
                 else b) (appointments db)"
    by (subst r) simp
  show "\<forall>a \<in> set (appointments (snd (doctor_update_appointment flt e aid f db))).
          appointment_id a = aid \<longrightarrow> status a = tf_status f"
    unfolding ap using status_written by blast
  show "\<exists>t \<in> set (treatments (snd (doctor_update_appointment flt e aid f db))).
          tr_appointment_id t = aid \<and> holds_form f t"
  proof (cases "aid \<in> tr_appointment_id ` set (treatments db)")
    case True
    then have "treatments (snd (doctor_update_appointment flt e aid f db)) =
      map (\<lambda>t. if tr_appointment_id t = aid
                then t\<lparr>diagnosis := tf_diagnosis f, prescription := tf_prescription f,
                       tr_notes := tf_notes f, follow_up_date := tf_follow_up_date f,
                       tr_updated_at := current_timestamp e\<rparr>
                else t) (treatments db)"
      by (subst r) simp
    with treatment_written [OF True] show ?thesis by simp
  next
    case False
    then show ?thesis by (subst r) (simp add: holds_form_def)
  qed
qed

lemma doctor_update_statements:
  assumes "fst (doctor_update_appointment flt e aid f db) = Success"
  shows "\<exists>db1. update_status aid (tf_status f) (current_timestamp e) db = Inr db1
          \<and> (if treatments_of aid db = []
              then insert_treatment aid f (current_timestamp e) db1
              else update_treatment aid f (current_timestamp e) db1) =
             Inr (snd (doctor_update_appointment flt e aid f db))"
  unfolding doctor_update_status_written [OF assms] doctor_update_written [OF assms]
  by (simp add: treatments_of_empty insert_treatment_def update_treatment_def)

text \<open>
  C6. The clinician's status update is atomic. For every call, on every store and with
  a storage failure at any statement or at the commit: either the request succeeds, and
  then the status UPDATE and the INSERT or UPDATE of the treatment row both took effect
  (every appointment with the identifier has the posted status and a treatment row of the
  appointment holds the posted fields); or it does not succeed, and then the stored state
  is the one before the call.
\<close>

theorem doctor_update_atomic:
  "(fst (doctor_update_appointment flt e aid f db) = Success
     \<and> (\<exists>db1. update_status aid (tf_status f) (current_timestamp e) db = Inr db1
          \<and> (if treatments_of aid db = []
              then insert_treatment aid f (current_timestamp e) db1
              else update_treatment aid f (current_timestamp e) db1) =
             Inr (snd (doctor_update_appointment flt e aid f db)))
     \<and> (\<forall>a \<in> set (appointments (snd (doctor_update_appointment flt e aid f db))).
          appointment_id a = aid \<longrightarrow> status a = tf_status f)
     \<and> (\<exists>t \<in> set (treatments (snd (doctor_update_appointment flt e aid f db))).
          tr_appointment_id t = aid \<and> holds_form f t))
   \<or> (fst (doctor_update_appointment flt e aid f db) \<noteq> Success
       \<and> snd (doctor_update_appointment flt e aid f db) = db)"
proof (cases "fst (doctor_update_appointment flt e aid f db) = Success")
  case False
  with doctor_update_failure [OF False] show ?thesis by blast
next
  case True
  from True doctor_update_statements [OF True] doctor_update_visible [OF True]
  show ?thesis by blast
qed

text \<open>C6, witness: with a storage failure at the third statement, after the status UPDATE
  has run, the request fails and the busy clinic is unchanged (appointment 1 still Booked,
  no treatment row); on a healthy store the appointment is Completed and the treatment row
  is there.\<close>

theorem doctor_update_atomic_witness:
  "doctor_update_appointment (Some 2) (doctor_env 21) 1 (findings ''Completed'' ''flu'')
     busy_clinic = (Failed OperationalError, busy_clinic)
   \<and> fst (doctor_update_appointment None (doctor_env 21) 1 (findings ''Completed'' ''flu'')
       busy_clinic) = Success
   \<and> map status (appointments (snd (doctor_update_appointment None (doctor_env 21) 1
       (findings ''Completed'' ''flu'') busy_clinic))) = [Some ''Completed'']
   \<and> map (\<lambda>t. (tr_appointment_id t, diagnosis t)) (treatments (snd
       (doctor_update_appointment None (doctor_env 21) 1 (findings ''Completed'' ''flu'')
          busy_clinic))) = [(1, Some ''flu'')]"
proof -
  let ?f = "findings ''Completed'' ''flu''"
  have failed: "fst (doctor_update_appointment (Some 2) (doctor_env 21) 1 ?f busy_clinic) =
      Failed OperationalError"
    by (simp add: handler_defs db_defs sql_defs clinic_defs)
  then have "fst (doctor_update_appointment (Some 2) (doctor_env 21) 1 ?f busy_clinic) \<noteq> Success"
    by simp
  with doctor_update_atomic [of "Some 2" "doctor_env 21" 1 ?f busy_clinic]
  have "snd (doctor_update_appointment (Some 2) (doctor_env 21) 1 ?f busy_clinic) = busy_clinic"
    by blast
  with failed have rolled_back:
    "doctor_update_appointment (Some 2) (doctor_env 21) 1 ?f busy_clinic =
       (Failed OperationalError, busy_clinic)"
    by (simp add: prod_eq_iff)
  have applied: "fst (doctor_update_appointment None (doctor_env 21) 1 ?f busy_clinic) = Success"
    "map status (appointments (snd (doctor_update_appointment None (doctor_env 21) 1 ?f
       busy_clinic))) = [Some ''Completed'']"
    "map (\<lambda>t. (tr_appointment_id t, diagnosis t)) (treatments (snd
       (doctor_update_appointment None (doctor_env 21) 1 ?f busy_clinic))) = [(1, Some ''flu'')]"
    by (simp_all add: handler_defs db_defs sql_defs clinic_defs)
  from rolled_back applied show ?thesis by simp
qed

subsection \<open>C7: one treatment row per appointment, holding the latest values\<close>

lemma single_by_key:
  "distinct (map k xs) \<Longrightarrow> a \<in> k ` set xs \<Longrightarrow> \<exists>x. filter (\<lambda>x. k x = a) xs = [x]"
proof (induction xs)
  case Nil
  then show ?case by simp
next
  case (Cons y ys)
  show ?case
  proof (cases "k y = a")
    case True
    with Cons.prems(1) have "filter (\<lambda>x. k x = a) ys = []"
      by (auto simp: filter_empty_conv image_iff)
    with True show ?thesis by simp
  next
    case False
    with Cons show ?thesis by auto
  qed
qed

lemma filter_key_map:
  "(\<And>x. k (g x) = k x) \<Longrightarrow>
     filter (\<lambda>x. k x = a) (map g xs) = map g (filter (\<lambda>x. k x = a) xs)"
  by (induction xs) simp_all

lemma update_treatment_key:
  "tr_appointment_id \<circ> (\<lambda>t. if tr_appointment_id t = aid
                then t\<lparr>diagnosis := dx, prescription := rx, tr_notes := ns,
                       follow_up_date := fu, tr_updated_at := now\<rparr>
                else t) = tr_appointment_id"
  by (auto simp: fun_eq_iff)

lemma upsert_single:
  assumes "treatments_unique db"
    and "doctor_update_appointment flt e aid f db = (Success, db')"
  shows "treatments_unique db' \<and> (\<exists>t. treatments_of aid db' = [t] \<and> holds_form f t)"
proof -
  from assms(2) have ok: "fst (doctor_update_appointment flt e aid f db) = Success" by simp
  from doctor_update_written [OF ok] assms(2)
  have r: "db' = db\<lparr>appointments :=
        map (\<lambda>b. if appointment_id b = aid
                 then b\<lparr>status := tf_status f, ap_updated_at := current_timestamp e\<rparr>
                 else b) (appointments db),
       treatments :=
        (if aid \<in> tr_appointment_id ` set (treatments db)
         then map (\<lambda>t. if tr_appointment_id t = aid
                then t\<lparr>diagnosis := tf_diagnosis f, prescription := tf_prescription f,
                       tr_notes := tf_notes f, follow_up_date := tf_follow_up_date f,
                       tr_updated_at := current_timestamp e\<rparr>
                else t) (treatments db)
         else treatments db @
           [\<lparr>treatment_id = next_id (map treatment_id (treatments db)),
             tr_appointment_id = aid, diagnosis = tf_diagnosis f,
             prescription = tf_prescription f, tr_notes = tf_notes f,
             follow_up_date = tf_follow_up_date f,
             tr_created_at = current_timestamp e, tr_updated_at = current_timestamp e\<rparr>])\<rparr>"
    by simp
  show ?thesis
  proof (cases "aid \<in> tr_appointment_id ` set (treatments db)")
    case True
    let ?g = "\<lambda>t. if tr_appointment_id t = aid
                then t\<lparr>diagnosis := tf_diagnosis f, prescription := tf_prescription f,
                       tr_notes := tf_notes f, follow_up_date := tf_follow_up_date f,
                       tr_updated_at := current_timestamp e\<rparr>
                else t"
    from True r have ts: "treatments db' = map ?g (treatments db)" by simp
    from assms(1) have "distinct (map tr_appointment_id (treatments db))"
      by (simp only: treatments_unique_def)
    from single_by_key [OF this True] obtain t where
      t: "filter (\<lambda>x. tr_appointment_id x = aid) (treatments db) = [t]" ..
    then have "t \<in> set (filter (\<lambda>x. tr_appointment_id x = aid) (treatments db))" by simp
    then have key: "tr_appointment_id t = aid" by simp
    have "filter (\<lambda>x. tr_appointment_id x = aid) (map ?g (treatments db)) =
          map ?g (filter (\<lambda>x. tr_appointment_id x = aid) (treatments db))"
      by (rule filter_key_map) simp
    with t have one: "treatments_of aid db' = [?g t]"
      unfolding treatments_of_def ts by (simp only: list.map)
    from key have "holds_form f (?g t)" by (simp add: holds_form_def)
    moreover from assms(1) have "treatments_unique db'"
      unfolding treatments_unique_def ts by (simp add: update_treatment_key)
    ultimately show ?thesis using one by blast
  next
    case False
    with r have ts: "treatments db' = treatments db @
           [\<lparr>treatment_id = next_id (map treatment_id (treatments db)),
             tr_appointment_id = aid, diagnosis = tf_diagnosis f,
             prescription = tf_prescription f, tr_notes = tf_notes f,
             follow_up_date = tf_follow_up_date f,
             tr_created_at = current_timestamp e, tr_updated_at = current_timestamp e\<rparr>]"
      by simp
    from False have "filter (\<lambda>x. tr_appointment_id x = aid) (treatments db) = []"
      by (auto simp: filter_empty_conv)
    then have "\<exists>t. treatments_of aid db' = [t] \<and> holds_form f t"
      unfolding treatments_of_def ts by (simp add: holds_form_def)
    moreover from assms(1) False have "treatments_unique db'"
      unfolding treatments_unique_def ts by simp
    ultimately show ?thesis by blast
  qed
qed

text \<open>
  C7. For every appointment identifier, when the status update with treatment is
  performed twice with success (on a treatment table that satisfies its UNIQUE
  constraint), exactly one treatment row belongs to the appointment afterwards, and its
  diagnosis, prescription, notes and follow-up date are those of the second call.
\<close>

theorem treatment_upsert_twice:
  assumes "treatments_unique db"
    and "doctor_update_appointment flt1 e1 aid f1 db = (Success, db1)"
    and "doctor_update_appointment flt2 e2 aid f2 db1 = (Success, db2)"
  shows "\<exists>t. treatments_of aid db2 = [t] \<and> holds_form f2 t"
proof -
  from upsert_single [OF assms(1,2)] have "treatments_unique db1" by blast
  from upsert_single [OF this assms(3)] show ?thesis by blast
qed

text \<open>C7, witness: appointment 1 is completed with diagnosis flu and then with diagnosis
  cold; one treatment row remains and its diagnosis is cold.\<close>

theorem treatment_upsert_twice_witness:
  "length (treatments_of 1 (snd (doctor_update_appointment None (doctor_env 21) 1
       (findings ''Completed'' ''cold'')
       (snd (doctor_update_appointment None (doctor_env 21) 1
          (findings ''Completed'' ''flu'') busy_clinic))))) = 1
   \<and> map diagnosis (treatments_of 1 (snd (doctor_update_appointment None (doctor_env 21) 1
       (findings ''Completed'' ''cold'')
       (snd (doctor_update_appointment None (doctor_env 21) 1
          (findings ''Completed'' ''flu'') busy_clinic))))) = [Some ''cold'']"
proof -
  let ?e = "doctor_env 21"
  let ?db1 = "snd (doctor_update_appointment None ?e 1 (findings ''Completed'' ''flu'')
      busy_clinic)"
  let ?db2 = "snd (doctor_update_appointment None ?e 1 (findings ''Completed'' ''cold'') ?db1)"
  have u: "treatments_unique busy_clinic"
    by (simp add: treatments_unique_def clinic_defs)
  have first: "doctor_update_appointment None ?e 1 (findings ''Completed'' ''flu'') busy_clinic =
      (Success, ?db1)"
    by (simp add: handler_defs db_defs sql_defs clinic_defs)
  have second: "doctor_update_appointment None ?e 1 (findings ''Completed'' ''cold'') ?db1 =
      (Success, ?db2)"
    by (simp add: handler_defs db_defs sql_defs clinic_defs)
  from treatment_upsert_twice [OF u first second] obtain t where
    "treatments_of 1 ?db2 = [t]" and "holds_form (findings ''Completed'' ''cold'') t"
    by blast
  then show ?thesis by (simp add: holds_form_def findings_def)
qed

subsection \<open>C8: availability windows are upserted by their natural key\<close>

lemma handle_windows_unique:
  assumes "windows_unique db"
  shows "windows_unique (snd (handle r db))"
proof (cases r)
  case (Book flt e f)
  from book_appointment_effect [of flt e f db]
  have "doctor_availability (snd (book_appointment flt e f db)) = doctor_availability db"
    by (elim disjE exE conjE) simp_all
  with assms Book show ?thesis by (simp add: windows_unique_def)
next
  case (Cancel flt e aid)
  from cancel_appointment_effect [of flt e aid db]
  have "doctor_availability (snd (cancel_appointment flt e aid db)) = doctor_availability db"
    by (elim disjE) simp_all
  with assms Cancel show ?thesis by (simp add: windows_unique_def)
next
  case (DoctorUpdate flt e aid f)
  from doctor_update_cases [of flt e aid f db]
  have "doctor_availability (snd (doctor_update_appointment flt e aid f db)) =
      doctor_availability db"
    by (elim disjE conjE) simp_all
  with assms DoctorUpdate show ?thesis by (simp add: windows_unique_def)
next
  case (AdminUpdate flt e aid st)
  from admin_update_effect [of flt e aid st db]
  have "doctor_availability (snd (admin_update_appointment flt e aid st db)) =
      doctor_availability db"
    by (elim disjE) simp_all
  with assms AdminUpdate show ?thesis by (simp add: windows_unique_def)
next
  case (DeclareAvailability flt e f)
  with assms availability_effect [of flt e f db] show ?thesis by simp
qed

lemma run_windows_unique: "windows_unique db \<Longrightarrow> windows_unique (serial_run rs db)"
  by (induction rs arbitrary: db) (simp_all add: handle_windows_unique)

text \<open>\<^verbatim>\<open>str(i)\<close> is the decimal numeral of \<open>i\<close>.\<close>

lemma digit_char:
  assumes "k < 10"
  shows "of_char (''0123456789'' ! k) = 48 + k"
    and "''0123456789'' ! k \<in> set ''0123456789''"
    and "(''0123456789'' ! k = CHR ''0'') = (k = 0)"
proof -
  from assms have "k = 0 \<or> k = 1 \<or> k = 2 \<or> k = 3 \<or> k = 4 \<or> k = 5 \<or> k = 6 \<or> k = 7
      \<or> k = 8 \<or> k = 9"
    by arith
  then show "of_char (''0123456789'' ! k) = 48 + k"
    and "''0123456789'' ! k \<in> set ''0123456789''"
    and "(''0123456789'' ! k = CHR ''0'') = (k = 0)"
    by (elim disjE; simp)+
qed

lemma decimal_value_snoc:
  "decimal_value (s @ [c]) = 10 * decimal_value s + (of_char c - 48)"
  by (simp add: decimal_value_def)

lemma str_decimal: "decimal_value (str n) = n"
proof (induction n rule: str.induct)
  case (1 n)
  show ?case
  proof (cases "n < 10")
    case True
    then show ?thesis
      by (subst str.simps) (simp add: decimal_value_def digit_char(1))
  next
    case False
    with 1 have "decimal_value (str (n div 10)) = n div 10" by simp
    moreover have "n mod 10 < 10" by simp
    ultimately show ?thesis
      using False
      by (subst str.simps) (simp add: decimal_value_snoc digit_char(1))
  qed
qed

lemma str_numeral: "decimal_numeral (str n)"
proof (induction n rule: str.induct)
  case (1 n)
  show ?case
  proof (cases "n < 10")
    case True
    then have "str n = [''0123456789'' ! n]" by (subst str.simps) simp
    with True digit_char(2,3) [OF True] show ?thesis
      by (simp add: decimal_numeral_def)
  next
    case False
    with 1 have ih: "decimal_numeral (str (n div 10))" by simp
    from False have "0 < n div 10" by simp
    with str_decimal [of "n div 10"] have "str (n div 10) \<noteq> ''0''"
      by (auto simp: decimal_value_def)
    with ih have "hd (str (n div 10)) \<noteq> CHR ''0''" "str (n div 10) \<noteq> []"
      "set (str (n div 10)) \<subseteq> set ''0123456789''"
      by (auto simp: decimal_numeral_def)
    moreover have "n mod 10 < 10" by simp
    moreover from False have "str n = str (n div 10) @ [''0123456789'' ! (n mod 10)]"
      by (subst str.simps) simp
    ultimately show ?thesis
      using digit_char(2) [of "n mod 10"] by (simp add: decimal_numeral_def)
  qed
qed

text \<open>
  C8. Declaring availability windows upserts by the key (clinician, date, start time).
  When a doctor with a profile posts a form of any number of rows on a healthy store whose
  window table has unique keys and identifiers (each row with its date, start and end),
  the request succeeds and the window table afterwards is the one obtained by declaring
  the rows in their order, each as the specification says: if a window with the key of the
  row exists, its end time and its open flag become those of the row and nothing else
  changes; otherwise one window with a fresh identifier and the values of the row is
  appended. Key and end are the values SQLite stores for the posted texts; the open flag
  of row \<open>i\<close> is set when \<^verbatim>\<open>str(i)\<close>, the decimal numeral of \<open>i\<close>, is among the posted flags.
  And whatever requests are served afterwards, one after another, of any handler, with any
  form and any storage failure, the keys of the window table stay unique: no (clinician,
  date, start time) triple ever has two rows.
\<close>

theorem window_upsert_by_key:
  assumes "current_user e = Some u" "role u = ''doctor''"
    and "select_doctor (user_id u) db = Some d"
    and "windows_unique db"
    and "length (dates f) \<le> length (start_times f)" "length (dates f) \<le> length (end_times f)"
  shows "availability None e f db =
           (Success, db\<lparr>doctor_availability :=
              foldl (declare_window (doctor_id d)) (doctor_availability db)
                (map (posted_window (sqlite3 e) f) [0..<length (dates f)])\<rparr>)
         \<and> (\<forall>i. decimal_numeral (str i) \<and> decimal_value (str i) = i)
         \<and> (\<forall>rs. windows_unique (serial_run rs db))"
proof (intro conjI allI)
  show "availability None e f db =
           (Success, db\<lparr>doctor_availability :=
              foldl (declare_window (doctor_id d)) (doctor_availability db)
                (map (posted_window (sqlite3 e) f) [0..<length (dates f)])\<rparr>)"
    using assms by (rule availability_healthy)
next
  fix i
  show "decimal_numeral (str i)" by (rule str_numeral)
  show "decimal_value (str i) = i" by (rule str_decimal)
next
  fix rs
  from assms(4) show "windows_unique (serial_run rs db)" by (rule run_windows_unique)
qed

text \<open>C8, witness: on the clinic, doctor 1 posts the two rows of \<open>two_windows\<close>. The window
  that starts at 09:00 is updated (it now ends at 13:00 and is closed, as the numeral of
  row 0 was not posted), and the window from 14:00 to 17:00 is appended, open.\<close>

theorem window_upsert_by_key_witness:
  "availability None (doctor_env 21) two_windows clinic =
     (Success, clinic\<lparr>doctor_availability :=
        [\<lparr>availability_id = 1, av_doctor_id = 1, av_date = SqlText ''2025-06-10'',
          start_time = SqlText ''09:00'', end_time = SqlText ''13:00'', is_available = False\<rparr>,
         \<lparr>availability_id = 2, av_doctor_id = 1, av_date = SqlText ''2025-06-10'',
          start_time = SqlText ''14:00'', end_time = SqlText ''17:00'', is_available = True\<rparr>]\<rparr>)
   \<and> str 1 = ''1'' \<and> str 12 = ''12''"
proof -
  let ?u = "\<lparr>user_id = 21, role = ''doctor''\<rparr>"
  let ?d = "\<lparr>doctor_id = 1, doctor_user_id = 21, doctor_status = ''active''\<rparr>"
  have e: "current_user (doctor_env 21) = Some ?u" "role ?u = ''doctor''"
    "select_doctor (user_id ?u) clinic = Some ?d" "windows_unique clinic"
    "length (dates two_windows) \<le> length (start_times two_windows)"
    "length (dates two_windows) \<le> length (end_times two_windows)"
    by (simp_all add: clinic_defs sql_defs windows_unique_def window_key_def two_windows_def)
  have s: "str 0 = ''0''" "str (Suc 0) = ''1''" "str 1 = ''1''"
    by (subst str.simps, simp)+
  have s12: "str 12 = ''12''"
    by (subst str.simps, subst str.simps) simp
  have rows: "map (posted_window (sqlite3 (doctor_env 21)) two_windows)
      [0..<length (dates two_windows)] =
      [(SqlText ''2025-06-10'', SqlText ''09:00'', SqlText ''13:00'', False),
       (SqlText ''2025-06-10'', SqlText ''14:00'', SqlText ''17:00'', True)]"
    by (simp add: posted_window_def two_windows_def clinic_defs upt_rec s)
  from window_upsert_by_key [OF e]
  have "availability None (doctor_env 21) two_windows clinic =
     (Success, clinic\<lparr>doctor_availability :=
        foldl (declare_window (doctor_id ?d)) (doctor_availability clinic)
          (map (posted_window (sqlite3 (doctor_env 21)) two_windows)
             [0..<length (dates two_windows)])\<rparr>)"
    by blast
  then have "availability None (doctor_env 21) two_windows clinic =
     (Success, clinic\<lparr>doctor_availability :=
        [\<lparr>availability_id = 1, av_doctor_id = 1, av_date = SqlText ''2025-06-10'',
          start_time = SqlText ''09:00'', end_time = SqlText ''13:00'', is_available = False\<rparr>,
         \<lparr>availability_id = 2, av_doctor_id = 1, av_date = SqlText ''2025-06-10'',
          start_time = SqlText ''14:00'', end_time = SqlText ''17:00'', is_available = True\<rparr>]\<rparr>)"
    unfolding rows by (simp add: declare_window_def window_key_def clinic_def next_id_def)
  with s s12 show ?thesis by simp
qed

subsection \<open>C9: a patient's cancellation does not look at the status\<close>

lemma find_the_row:
  assumes "x \<in> set xs" "P x" "\<forall>y \<in> set xs. P y \<longrightarrow> y = x"
  shows "List.find P xs = Some x"
  using assms
proof (induction xs)
  case Nil
  then show ?case by simp
next
  case (Cons y ys)
  show ?case
  proof (cases "P y")
    case True
    with Cons.prems(3) have "y = x" by simp
    with True show ?thesis by simp
  next
    case False
    with Cons.prems(1,2) have "x \<in> set ys" by auto
    moreover from Cons.prems(3) have "\<forall>z \<in> set ys. P z \<longrightarrow> z = x" by simp
    ultimately have "List.find P ys = Some x" using Cons.prems(2) by (intro Cons.IH)
    with False show ?thesis by simp
  qed
qed

lemma select_own_appointment:
  assumes "appointment_ids_unique db"
    and "a \<in> set (appointments db)" "ap_patient_id a = pid"
  shows "select_appointment_of (appointment_id a) pid db = Some a"
proof -
  from assms(1) have ids: "distinct (map appointment_id (appointments db))"
    by (simp add: appointment_ids_unique_def)
  have "b = a" if "b \<in> set (appointments db)" "appointment_id b = appointment_id a" for b
    using ids that(1) assms(2) that(2) by (rule same_row)
  then have "\<forall>b \<in> set (appointments db).
      appointment_id b = appointment_id a \<and> ap_patient_id b = pid \<longrightarrow> b = a"
    by blast
  with assms(2,3) show ?thesis
    unfolding select_appointment_of_def by (intro find_the_row) simp_all
qed

text \<open>An identifier beyond 64 bits is refused when it is bound.\<close>

lemma cancel_overflow:
  assumes "current_user e = Some u" "role u = ''patient''"
    and "select_patient (user_id u) db = Some p" "\<not> aid < 2 ^ 63"
  shows "cancel_appointment None e aid db = (Failed OverflowError, db)"
  using assms by (simp add: cancel_appointment_def db_defs)

text \<open>
  C9. The patient's cancellation does not inspect the current status. On a healthy store
  whose appointment identifiers are unique and below \<open>2 ^ 63\<close>, what the handler does with an
  appointment of the requesting patient depends on the stored date alone. When the date is
  today or later (a text that is not before the text of today, as every date is that a
  date field posts), the cancellation succeeds and sets the status of that appointment to
  Cancelled and its update time to now, whatever its status was, Completed, Rescheduled
  and Cancelled included, and no other appointment changes. When the date is a text before
  today the request is refused as a past cancellation. When SQLite stored the date as a
  number (a date posted as \<^verbatim>\<open>2027\<close>, say) the appointment has no date to compare: the
  comparison with today raises TypeError, the handler answers with the error flash, and
  the store stays as it was.
\<close>

theorem cancel_ignores_status:
  assumes "current_user e = Some u" "role u = ''patient''"
    and "select_patient (user_id u) db = Some p"
    and "appointment_ids_unique db"
    and "a \<in> set (appointments db)" "ap_patient_id a = patient_id p"
    and "appointment_id a < 2 ^ 63"
  shows "(\<forall>d. appointment_date a = SqlText d \<and> \<not> d < today e \<longrightarrow>
            cancel_appointment None e (appointment_id a) db =
              (Success, db\<lparr>appointments :=
                 map (\<lambda>b. if b = a
                          then a\<lparr>status := Some ''Cancelled'',
                                 ap_updated_at := current_timestamp e\<rparr>
                          else b) (appointments db)\<rparr>))
         \<and> (\<forall>d. appointment_date a = SqlText d \<and> d < today e \<longrightarrow>
               cancel_appointment None e (appointment_id a) db = (Rejected PastCancel, db))
         \<and> (\<forall>x. appointment_date a = SqlNumber x \<longrightarrow>
               cancel_appointment None e (appointment_id a) db = (Failed TypeError, db))"
proof -
  from assms(4) have ids: "distinct (map appointment_id (appointments db))"
    by (simp add: appointment_ids_unique_def)
  have only: "b = a" if "b \<in> set (appointments db)" "appointment_id b = appointment_id a" for b
    using ids that(1) assms(5) that(2) by (rule same_row)
  note found = select_own_appointment [OF assms(4,5,6)]
  note flat = cancel_appointment_flat [OF assms(1-3,7)]
  have row: "(if appointment_id b = appointment_id a
           then b\<lparr>status := Some ''Cancelled'', ap_updated_at := current_timestamp e\<rparr>
           else b) =
        (if b = a
           then a\<lparr>status := Some ''Cancelled'', ap_updated_at := current_timestamp e\<rparr>
           else b)" if "b \<in> set (appointments db)" for b
  proof (cases "b = a")
    case True
    then show ?thesis by simp
  next
    case False
    with only [OF that] have "appointment_id b \<noteq> appointment_id a" by blast
    with False show ?thesis by simp
  qed
  have rows: "map (\<lambda>b. if appointment_id b = appointment_id a
               then b\<lparr>status := Some ''Cancelled'', ap_updated_at := current_timestamp e\<rparr>
               else b) (appointments db) =
        map (\<lambda>b. if b = a
                 then a\<lparr>status := Some ''Cancelled'', ap_updated_at := current_timestamp e\<rparr>
                 else b) (appointments db)"
    by (rule map_cong [OF refl]) (rule row)
  have later: "cancel_appointment None e (appointment_id a) db =
              (Success, db\<lparr>appointments :=
                 map (\<lambda>b. if b = a
                          then a\<lparr>status := Some ''Cancelled'',
                                 ap_updated_at := current_timestamp e\<rparr>
                          else b) (appointments db)\<rparr>)"
    if "appointment_date a = SqlText d \<and> \<not> d < today e" for d
    using that found rows by (simp add: flat)
  have past: "cancel_appointment None e (appointment_id a) db = (Rejected PastCancel, db)"
    if "appointment_date a = SqlText d \<and> d < today e" for d
    using that found by (simp add: flat)
  have number: "cancel_appointment None e (appointment_id a) db = (Failed TypeError, db)"
    if "appointment_date a = SqlNumber x" for x
    using that found by (simp add: flat)
  from later past number show ?thesis by blast
qed

text \<open>C9, witness: on the day of the visit, patient 1 cancels appointment 1, which is
  Completed, and it becomes Cancelled.\<close>

theorem cancel_ignores_status_witness:
  "cancel_appointment None (patient_env 11 ''2025-06-10'') 1
     (clinic\<lparr>appointments := [visit 1 1 ''Completed'']\<rparr>) =
   (Success, clinic\<lparr>appointments := [visit 1 1 ''Cancelled'']\<rparr>)"
proof -
  let ?e = "patient_env 11 ''2025-06-10''"
  let ?u = "\<lparr>user_id = 11, role = ''patient''\<rparr>"
  let ?p = "\<lparr>patient_id = 1, patient_user_id = 11, patient_status = ''active''\<rparr>"
  let ?db = "clinic\<lparr>appointments := [visit 1 1 ''Completed'']\<rparr>"
  have h: "current_user ?e = Some ?u" "role ?u = ''patient''"
    "select_patient (user_id ?u) ?db = Some ?p" "appointment_ids_unique ?db"
    "visit 1 1 ''Completed'' \<in> set (appointments ?db)"
    "ap_patient_id (visit 1 1 ''Completed'') = patient_id ?p"
    "appointment_id (visit 1 1 ''Completed'') < 2 ^ 63"
    by (simp_all add: clinic_defs sql_defs appointment_ids_unique_def)
  have d: "appointment_date (visit 1 1 ''Completed'') = SqlText ''2025-06-10''
      \<and> \<not> ''2025-06-10'' < today ?e"
    by (simp add: clinic_defs)
  from cancel_ignores_status [OF h] d
  have "cancel_appointment None ?e (appointment_id (visit 1 1 ''Completed'')) ?db =
      (Success, ?db\<lparr>appointments :=
         map (\<lambda>b. if b = visit 1 1 ''Completed''
                  then (visit 1 1 ''Completed'')\<lparr>status := Some ''Cancelled'',
                         ap_updated_at := current_timestamp ?e\<rparr>
                  else b) (appointments ?db)\<rparr>)"
    by blast
  then show ?thesis
    by (simp add: clinic_defs)
qed

subsection \<open>C10: the clinician's status update checks no ownership\<close>

text \<open>
  C10. The clinician's status update performs no ownership check. For every logged-in
  doctor the result of a call is the result the same call has for any other doctor, on
  every store and for every appointment identifier; and for an identifier below \<open>2 ^ 63\<close>
  (every existing one is) with a status the CHECK constraint admits, on a healthy store,
  the call succeeds, every appointment with the identifier has the posted status and a
  treatment row of the appointment holds the posted fields, whoever the doctor of the
  appointment is. An identifier that is not below \<open>2 ^ 63\<close> is refused when it is bound, in
  the \<^verbatim>\<open>try\<close> and again by the first SELECT of the page: the request ends with HTTP 500
  and the store stays as it was.
\<close>

theorem doctor_update_any_clinician:
  assumes "current_user e = Some u" "role u = ''doctor''" "role u' = ''doctor''"
  shows "doctor_update_appointment flt (e\<lparr>current_user := Some u'\<rparr>) aid f db =
           doctor_update_appointment flt e aid f db
         \<and> (status_check (tf_status f) \<and> aid < 2 ^ 63 \<longrightarrow>
              fst (doctor_update_appointment None e aid f db) = Success
              \<and> (\<forall>a \<in> set (appointments (snd (doctor_update_appointment None e aid f db))).
                    appointment_id a = aid \<longrightarrow> status a = tf_status f)
              \<and> (\<exists>t \<in> set (treatments (snd (doctor_update_appointment None e aid f db))).
                    tr_appointment_id t = aid \<and> holds_form f t))
         \<and> (\<not> aid < 2 ^ 63 \<longrightarrow>
              doctor_update_appointment flt e aid f db = (Crashed OverflowError, db))"
proof (intro conjI impI)
  show "doctor_update_appointment flt (e\<lparr>current_user := Some u'\<rparr>) aid f db =
           doctor_update_appointment flt e aid f db"
    using assms
    by (simp add: doctor_update_appointment_def role_required_def cong: option.case_cong)
next
  assume "status_check (tf_status f) \<and> aid < 2 ^ 63"
  with assms(1,2) show ok: "fst (doctor_update_appointment None e aid f db) = Success"
    by (simp add: doctor_update_success)
  from doctor_update_visible [OF ok]
  show "\<forall>a \<in> set (appointments (snd (doctor_update_appointment None e aid f db))).
          appointment_id a = aid \<longrightarrow> status a = tf_status f"
    and "\<exists>t \<in> set (treatments (snd (doctor_update_appointment None e aid f db))).
          tr_appointment_id t = aid \<and> holds_form f t"
    by blast+
next
  assume "\<not> aid < 2 ^ 63"
  with assms(1,2) show "doctor_update_appointment flt e aid f db = (Crashed OverflowError, db)"
    by (rule doctor_update_overflow)
qed

text \<open>C10, witness: doctor 2 (user 22) completes appointment 1, which belongs to doctor 1,
  with the same result as doctor 1 (user 21).\<close>

theorem doctor_update_any_clinician_witness:
  "map (\<lambda>d. (doctor_id d, doctor_user_id d)) (doctors busy_clinic) = [(1, 21), (2, 22)]
   \<and> map ap_doctor_id (appointments busy_clinic) = [1]
   \<and> doctor_update_appointment None (doctor_env 22) 1 (findings ''Completed'' ''flu'')
        busy_clinic =
       doctor_update_appointment None (doctor_env 21) 1 (findings ''Completed'' ''flu'')
        busy_clinic
   \<and> fst (doctor_update_appointment None (doctor_env 22) 1 (findings ''Completed'' ''flu'')
        busy_clinic) = Success
   \<and> map (\<lambda>a. (ap_doctor_id a, status a)) (appointments (snd (doctor_update_appointment None
        (doctor_env 22) 1 (findings ''Completed'' ''flu'') busy_clinic))) =
       [(1, Some ''Completed'')]"
proof -
  let ?f = "findings ''Completed'' ''flu''"
  let ?u = "\<lparr>user_id = 21, role = ''doctor''\<rparr>"
  let ?u' = "\<lparr>user_id = 22, role = ''doctor''\<rparr>"
  have e: "current_user (doctor_env 21) = Some ?u" "role ?u = ''doctor''" "role ?u' = ''doctor''"
    by (simp_all add: clinic_defs)
  have other: "(doctor_env 21)\<lparr>current_user := Some ?u'\<rparr> = doctor_env 22"
    by (simp add: clinic_defs)
  have valid: "status_check (tf_status ?f) \<and> (1::nat) < 2 ^ 63"
    by (simp add: findings_def status_check_def)
  note any = doctor_update_any_clinician [OF e, of None 1 ?f busy_clinic, unfolded other]
  from any have same: "doctor_update_appointment None (doctor_env 22) 1 ?f busy_clinic =
      doctor_update_appointment None (doctor_env 21) 1 ?f busy_clinic"
    by blast
  from any valid have "fst (doctor_update_appointment None (doctor_env 21) 1 ?f busy_clinic) =
      Success"
    by blast
  with same have ok: "fst (doctor_update_appointment None (doctor_env 22) 1 ?f busy_clinic) =
      Success"
    by simp
  have rows: "map (\<lambda>d. (doctor_id d, doctor_user_id d)) (doctors busy_clinic) = [(1, 21), (2, 22)]"
    "map ap_doctor_id (appointments busy_clinic) = [1]"
    "map (\<lambda>a. (ap_doctor_id a, status a)) (appointments (snd (doctor_update_appointment None
        (doctor_env 22) 1 ?f busy_clinic))) = [(1, Some ''Completed'')]"
    by (simp_all add: handler_defs db_defs sql_defs clinic_defs)
  from same ok rows show ?thesis by simp
qed

end
